theory Spec2Isabelle
  imports Complex_Main
begin

section \<open>The notebook GP\_Regression\_Fully\_Bayesian as a program\<close>

text \<open>
  The source is one notebook of sequential cells. Each code cell becomes a function
  from the variables bound so far to the variables bound after it; a Python exception
  is the \<open>Inl\<close> branch of a sum. A tensor element is the real number its float
  denotes. What the float32 sine, product and sum of the tensor library round to, and
  what the calls into pyro and the GP library return, is left to a record of operations
  (\<open>lib\<close>), so that statements about the notebook's own control flow hold for every
  behaviour of the libraries.
\<close>

subsection \<open>Exceptions\<close>

datatype error =
    UnknownParameter string
  | InvalidPriorSupport string
  | SamplerFailure string
  | MissingSample string
  | MissingKey string
  | ShapeMismatch string
  | IndexError

definition then_do :: "error + 'a \<Rightarrow> ('a \<Rightarrow> error + 'b) \<Rightarrow> error + 'b" where
  "then_do m f = (case m of Inl e \<Rightarrow> Inl e | Inr x \<Rightarrow> f x)"

subsection \<open>Tensors\<close>

type_synonym tensor = "real list"

text \<open>\<open>torch.linspace(start, stop, steps)\<close>: \<open>steps\<close> points, both ends included.\<close>

definition linspace :: "real \<Rightarrow> real \<Rightarrow> nat \<Rightarrow> tensor" where
  "linspace start stop steps =
     map (\<lambda>i. start + (stop - start) * real i / real (steps - 1)) [0..<steps]"

text \<open>
  The Python floats the notebook writes are doubles: \<open>math.pi\<close> and the literal \<open>0.2\<close>
  are these two rationals, and \<open>2 * math.pi\<close> is exact.
\<close>

definition math_pi :: real where
  "math_pi = 884279719003555 / 281474976710656"

definition float_0_2 :: real where
  "float_0_2 = 3602879701896397 / 18014398509481984"

text \<open>\<open>t.unsqueeze(-1)\<close> on a vector, and \<open>t.unsqueeze(0).repeat(n, 1, 1)\<close>.\<close>

definition unsqueeze_last :: "tensor \<Rightarrow> real list list" where
  "unsqueeze_last t = map (\<lambda>x. [x]) t"

definition unsqueeze_repeat :: "int \<Rightarrow> real list list \<Rightarrow> real list list list" where
  "unsqueeze_repeat n t = replicate (nat n) t"

subsection \<open>Hyperparameters, constraints and priors\<close>

text \<open>
  Modelled from the spec: the storage of a hyperparameter, whose tensor class is not
  among the sources. A hyperparameter holds one scalar, or, in a batch model, one value
  per posterior sample (a leading sample-index dimension).
\<close>

datatype hyper = Single real | Batch "real list"

fun shape :: "hyper \<Rightarrow> nat list" where
  "shape (Single x) = []"
| "shape (Batch xs) = [length xs]"

text \<open>
  Modelled from the spec: the constraint classes, which are not among the sources. The
  notebook names two: \<open>Positive()\<close>, which it passes as \<open>noise_constraint\<close>, and
  \<open>GreaterThan(1e-4)\<close>, which its comment gives as the usual one. The domain of a
  constrained parameter is the set of values the constraint admits (the positive reals
  for \<open>Positive()\<close>, as the notebook's text has it); a parameter without a constraint
  ranges over all reals.
\<close>

datatype constraint = Positive | GreaterThan real

fun domain :: "constraint option \<Rightarrow> real set" where
  "domain None = UNIV"
| "domain (Some Positive) = {0<..}"
| "domain (Some (GreaterThan c)) = {c<..}"

text \<open>
  Modelled from the spec: the prior classes, which are not among the sources. The
  notebook imports three; the support of each is that of its distribution (for the
  uniform distribution the interval between its bounds).
\<close>

datatype prior =
    UniformPrior real real
  | NormalPrior real real
  | LogNormalPrior real real

fun support :: "prior \<Rightarrow> real set" where
  "support (UniformPrior a b) = {a..b}"
| "support (NormalPrior mu sigma) = UNIV"
| "support (LogNormalPrior mu sigma) = {0<..}"

fun is_uniform :: "prior \<Rightarrow> bool" where
  "is_uniform (UniformPrior a b) = True"
| "is_uniform p = False"

subsection \<open>Modules and the model class\<close>

text \<open>
  Modelled from the spec: the module class, which is not among the sources. A module
  holds a small number of named hyperparameters, each with its constraint, its
  registered priors (name, distribution, name of the parameter the prior is on) and
  the flag \<open>load_strict_shapes\<close> sets.
\<close>

record param =
  data :: hyper
  constraint :: "constraint option"

record Module =
  params :: "(string \<times> param) list"
  priors :: "(string \<times> prior \<times> string) list"
  strict_shapes :: bool

text \<open>A \<open>ScaleKernel\<close>: its own module state and the kernel it wraps.\<close>

record scale_kernel =
  scale :: Module
  base_kernel :: Module

text \<open>
  An \<open>ExactGPModel\<close> instance. The notebook's variable \<open>likelihood\<close> and
  \<open>model.likelihood\<close> are one object; the model is read through the field here.
\<close>

record gp_model =
  train_inputs :: tensor
  train_targets :: tensor
  likelihood :: Module
  mean_module :: Module
  covar_module :: scale_kernel
  training :: bool

datatype nuts = NUTS (adapt_step_size: bool)

datatype mcmc =
  MCMC (kernel: nuts) (mcmc_num_samples: int) (mcmc_warmup_steps: int) (disable_progbar: bool)

type_synonym sample_set = "(string \<times> real list) list"

type_synonym param_state = "(string \<times> hyper) list"

text \<open>The predictive distribution; the notebook reads only its mean, one row per batch entry.\<close>

record MultivariateNormal =
  mean :: "real list list"

subsection \<open>The library operations the notebook calls\<close>

text \<open>
  One field per operation. \<open>run\<close> is \<open>mcmc_run.run(train_x, train_y)\<close> followed by
  \<open>get_samples()\<close>; its model argument is the model that the closure \<open>pyro_model\<close>
  (and the marginal log likelihood \<open>mll\<close> inside it) captures, and which only the
  sampler calls. \<open>call\<close> is \<open>model(x)\<close>; the class's \<open>forward\<close> method runs only inside
  it. \<open>normal_draw\<close> is the stream of the random generator. \<open>f32_sin\<close>, \<open>f32_mul\<close>
  and \<open>f32_add\<close> are the float32 results of \<open>torch.sin\<close> on an element, of an element
  times a Python scalar, and of the sum of two elements.
\<close>

record lib =
  normal_draw :: "nat \<Rightarrow> real"
  f32_sin :: "real \<Rightarrow> real"
  f32_mul :: "real \<Rightarrow> real \<Rightarrow> real"
  f32_add :: "real \<Rightarrow> real \<Rightarrow> real"
  GaussianLikelihood :: "constraint \<Rightarrow> Module"
  ConstantMean :: Module
  PeriodicKernel :: Module
  ScaleKernel :: "Module \<Rightarrow> scale_kernel"
  register_prior :: "string \<Rightarrow> prior \<Rightarrow> string \<Rightarrow> Module \<Rightarrow> error + Module"
  run :: "mcmc \<Rightarrow> gp_model \<Rightarrow> tensor \<Rightarrow> tensor \<Rightarrow> error + sample_set"
  pyro_load_from_samples :: "sample_set \<Rightarrow> gp_model \<Rightarrow> error + gp_model"
  call :: "gp_model \<Rightarrow> real list list list \<Rightarrow> error + MultivariateNormal"
  state_dict :: "gp_model \<Rightarrow> param_state"
  load_strict_shapes :: "bool \<Rightarrow> gp_model \<Rightarrow> gp_model"
  load_state_dict :: "param_state \<Rightarrow> gp_model \<Rightarrow> error + gp_model"

text \<open>
  \<open>torch.randn(n)\<close>: the next \<open>n\<close> standard-normal draws of the generator, whose
  stream the seed fixes.
\<close>

definition randn :: "lib \<Rightarrow> nat \<Rightarrow> tensor" where
  "randn L n = map (normal_draw L) [0..<n]"

text \<open>
  Elementwise \<open>torch.sin(t)\<close>, \<open>t * c\<close> for a Python scalar \<open>c\<close>, and \<open>a + b\<close> for
  operands of one size, each element rounded as the library rounds it.
\<close>

definition sin_tensor :: "lib \<Rightarrow> tensor \<Rightarrow> tensor" where
  "sin_tensor L t = map (f32_sin L) t"

definition mul :: "lib \<Rightarrow> tensor \<Rightarrow> real \<Rightarrow> tensor" where
  "mul L t c = map (\<lambda>x. f32_mul L x c) t"

definition add :: "lib \<Rightarrow> tensor \<Rightarrow> tensor \<Rightarrow> tensor" where
  "add L a b = map2 (f32_add L) a b"

text \<open>
  The constructor of the notebook's class \<open>ExactGPModel\<close>: the base class keeps the
  training data and the likelihood, the subclass adds a constant mean and a scaled
  periodic kernel. A new module is in training mode.
\<close>

definition ExactGPModel :: "lib \<Rightarrow> tensor \<Rightarrow> tensor \<Rightarrow> Module \<Rightarrow> gp_model" where
  "ExactGPModel L train_x train_y lik =
     \<lparr>train_inputs = train_x, train_targets = train_y, likelihood = lik,
      mean_module = ConstantMean L,
      covar_module = ScaleKernel L (PeriodicKernel L),
      training = True\<rparr>"

definition model_eval :: "gp_model \<Rightarrow> gp_model" where
  "model_eval m = m\<lparr>training := False\<rparr>"

subsection \<open>The plot\<close>

record line =
  xdata :: tensor
  ydata :: tensor
  fmt :: string

record axes =
  lines :: "line list"
  ylim :: "(real \<times> real) option"
  legend :: "string list"

definition subplots :: axes where
  "subplots = \<lparr>lines = [], ylim = None, legend = []\<rparr>"

definition plot :: "axes \<Rightarrow> tensor \<Rightarrow> tensor \<Rightarrow> string \<Rightarrow> axes" where
  "plot ax x y f = ax\<lparr>lines := lines ax @ [\<lparr>xdata = x, ydata = y, fmt = f\<rparr>]\<rparr>"

subsection \<open>The variables of the notebook, cell by cell\<close>

text \<open>
  A record per stage, each extending the one before with the variables its cell binds.
  \<open>samples\<close> is what \<open>mcmc_run.get_samples()\<close> returns once \<open>run\<close> has returned;
  \<open>predicted\<close> is the notebook's variable \<open>output\<close> and \<open>saved_state\<close> its variable
  \<open>state_dict\<close> (both names are taken).
\<close>

record ns2 =
  train_x :: tensor
  train_y :: tensor

record ns5_setup = ns2 +
  smoke_test :: bool
  num_samples :: int
  warmup_steps :: int
  model :: gp_model
  mcmc_run :: mcmc

record ns5 = ns5_setup +
  samples :: sample_set

record ns8 = ns5 +
  test_x :: "real list list"
  test_y :: "real list list"
  expanded_test_x :: "real list list list"
  predicted :: MultivariateNormal

record ns10 = ns8 +
  ax :: axes

record ns12 = ns10 +
  saved_state :: param_state

subsection \<open>Cell 2: the training data\<close>

definition cell2 :: "lib \<Rightarrow> ns2" where
  "cell2 L =
     (let train_x = linspace 0 1 6;
          train_y = add L (sin_tensor L (mul L train_x (2 * math_pi)))
                      (mul L (randn L (length train_x)) float_0_2)
      in \<lparr>train_x = train_x, train_y = train_y\<rparr>)"

subsection \<open>Cell 5: configuration, model, priors, sampling\<close>

text \<open>\<open>os.environ\<close> is a dictionary from names to values.\<close>

type_synonym environ = "string \<rightharpoonup> string"

text \<open>The five \<open>register_prior\<close> calls, in the notebook's order.\<close>

definition register_priors :: "lib \<Rightarrow> gp_model \<Rightarrow> error + gp_model" where
  "register_priors L m0 =
     then_do (register_prior L ''mean_prior'' (UniformPrior (-1) 1) ''constant''
                (mean_module m0)) (\<lambda>mm.
     let m1 = m0\<lparr>mean_module := mm\<rparr> in
     then_do (register_prior L ''lengthscale_prior'' (UniformPrior 0.01 0.5) ''lengthscale''
                (base_kernel (covar_module m1))) (\<lambda>bk.
     let m2 = m1\<lparr>covar_module := (covar_module m1)\<lparr>base_kernel := bk\<rparr>\<rparr> in
     then_do (register_prior L ''period_length_prior'' (UniformPrior 0.05 2.5) ''period_length''
                (base_kernel (covar_module m2))) (\<lambda>bk'.
     let m3 = m2\<lparr>covar_module := (covar_module m2)\<lparr>base_kernel := bk'\<rparr>\<rparr> in
     then_do (register_prior L ''outputscale_prior'' (UniformPrior 1 2) ''outputscale''
                (scale (covar_module m3))) (\<lambda>sk.
     let m4 = m3\<lparr>covar_module := (covar_module m3)\<lparr>scale := sk\<rparr>\<rparr> in
     then_do (register_prior L ''noise_prior'' (UniformPrior 0.05 0.3) ''noise''
                (likelihood m4)) (\<lambda>lk.
     Inr (m4\<lparr>likelihood := lk\<rparr>))))))"

text \<open>Everything cell 5 does before it calls \<open>mcmc_run.run\<close>.\<close>

definition cell5_setup :: "lib \<Rightarrow> environ \<Rightarrow> ns2 \<Rightarrow> error + ns5_setup" where
  "cell5_setup L env v =
     (let smoke_test = (''CI'' \<in> dom env);
          num_samples = (if smoke_test then 2 else 100);
          warmup_steps = (if smoke_test then 2 else 200);
          lik = GaussianLikelihood L Positive
      in then_do (register_priors L (ExactGPModel L (train_x v) (train_y v) lik)) (\<lambda>m.
           let nuts_kernel = NUTS True;
               mcmc_run = MCMC nuts_kernel num_samples warmup_steps smoke_test
           in Inr (ns2.extend v
                 (ns5_setup.fields smoke_test num_samples warmup_steps m mcmc_run))))"

text \<open>The call \<open>mcmc_run.run(train_x, train_y)\<close> that ends cell 5.\<close>

definition cell5_run :: "lib \<Rightarrow> ns5_setup \<Rightarrow> error + ns5" where
  "cell5_run L s =
     then_do (run L (mcmc_run s) (model s) (train_x s) (train_y s)) (\<lambda>drawn.
     Inr (ns5_setup.extend s (ns5.fields drawn)))"

definition cell5 :: "lib \<Rightarrow> environ \<Rightarrow> ns2 \<Rightarrow> error + ns5" where
  "cell5 L env v = then_do (cell5_setup L env v) (cell5_run L)"

subsection \<open>Cell 7: loading the samples\<close>

definition cell7 :: "lib \<Rightarrow> ns5 \<Rightarrow> error + ns5" where
  "cell7 L s =
     then_do (pyro_load_from_samples L (samples s) (model s)) (\<lambda>m. Inr (s\<lparr>model := m\<rparr>))"

subsection \<open>Cell 8: prediction at the test points\<close>

definition cell8 :: "lib \<Rightarrow> ns5 \<Rightarrow> error + ns8" where
  "cell8 L s =
     (let m = model_eval (model s);
          test_x = unsqueeze_last (linspace 0 1 101);
          test_y = map (sin_tensor L) (map (\<lambda>row. mul L row (2 * math_pi)) test_x);
          expanded_test_x = unsqueeze_repeat (num_samples s) test_x
      in then_do (call L m expanded_test_x) (\<lambda>out.
           Inr (ns5.extend (s\<lparr>model := m\<rparr>) (ns8.fields test_x test_y expanded_test_x out))))"

subsection \<open>Cell 10: the plot\<close>

text \<open>
  The loop \<open>for i in range(...)\<close> over its index list; \<open>output.mean[i]\<close> raises
  \<open>IndexError\<close> past the last row.
\<close>

fun plot_means :: "nat list \<Rightarrow> tensor \<Rightarrow> real list list \<Rightarrow> axes \<Rightarrow> error + axes" where
  "plot_means [] x rows a = Inr a"
| "plot_means (i # rest) x rows a =
     (if i < length rows then plot_means rest x rows (plot a x (rows ! i) ''b'')
      else Inl IndexError)"

definition cell10 :: "ns8 \<Rightarrow> error + ns10" where
  "cell10 s =
     (let a0 = plot subplots (train_x s) (train_y s) ''k*''
      in then_do
           (plot_means [0..<nat (min (num_samples s) 25)] (concat (test_x s)) (mean (predicted s)) a0)
           (\<lambda>a1. let a2 = a1\<lparr>ylim := Some (-3, 3)\<rparr>;
                     a3 = a2\<lparr>legend := [''Observed Data'', ''Sampled Means'']\<rparr>
                 in Inr (ns8.extend s (ns10.fields a3))))"

subsection \<open>Cell 12: saving the state and loading it into a new model\<close>

definition cell12 :: "lib \<Rightarrow> ns10 \<Rightarrow> error + ns12" where
  "cell12 L s =
     (let saved = state_dict L (model s);
          m0 = ExactGPModel L (train_x s) (train_y s) (likelihood (model s));
          m1 = load_strict_shapes L False m0
      in then_do (load_state_dict L saved m1) (\<lambda>m2.
           Inr (ns10.extend (s\<lparr>model := m2\<rparr>) (ns12.fields saved))))"

subsection \<open>The whole notebook\<close>

text \<open>The variables after each cell, when every cell before it has returned.\<close>

definition after_cell5 :: "lib \<Rightarrow> environ \<Rightarrow> error + ns5" where
  "after_cell5 L env = cell5 L env (cell2 L)"

definition after_cell7 :: "lib \<Rightarrow> environ \<Rightarrow> error + ns5" where
  "after_cell7 L env = then_do (after_cell5 L env) (cell7 L)"

definition after_cell8 :: "lib \<Rightarrow> environ \<Rightarrow> error + ns8" where
  "after_cell8 L env = then_do (after_cell7 L env) (cell8 L)"

definition after_cell10 :: "lib \<Rightarrow> environ \<Rightarrow> error + ns10" where
  "after_cell10 L env = then_do (after_cell8 L env) cell10"

definition notebook :: "lib \<Rightarrow> environ \<Rightarrow> error + ns12" where
  "notebook L env = then_do (after_cell10 L env) (cell12 L)"

section \<open>The GP library's operations\<close>

text \<open>
  The notebook only calls the GP library; its modules are not among the sources. The
  definitions of this section give the library operations as the specification
  describes them. What the specification leaves to numerical code is a parameter:
  the generator's stream, the float32 arithmetic, the initial hyperparameter values,
  whether the sampler fails, what it draws, and the predictive mean.
\<close>

record numerics =
  rng :: "nat \<Rightarrow> real"
  sin32 :: "real \<Rightarrow> real"
  mul32 :: "real \<Rightarrow> real \<Rightarrow> real"
  add32 :: "real \<Rightarrow> real \<Rightarrow> real"
  initial :: "string \<Rightarrow> real"
  sampler_fault :: "error option"
  sampler_draw :: "string \<Rightarrow> nat \<Rightarrow> real"
  predictive_mean :: "gp_model \<Rightarrow> nat \<Rightarrow> real list \<Rightarrow> real"

text \<open>
  Modelled from the spec: the constructors of the likelihood, mean and kernel modules,
  which are not among the sources. Each hyperparameter starts as a scalar with a raw and
  a constrained (for example positive) representation: the noise takes the constraint
  the notebook passes, the kernel parameters are positive (the notebook's text says so of
  the lengthscale), the mean constant is unconstrained. A new module checks shapes
  when it loads a state.
\<close>

definition new_module :: "(string \<times> param) list \<Rightarrow> Module" where
  "new_module ps = \<lparr>params = ps, priors = [], strict_shapes = True\<rparr>"

definition gpytorch_GaussianLikelihood :: "numerics \<Rightarrow> constraint \<Rightarrow> Module" where
  "gpytorch_GaussianLikelihood N noise_constraint =
     new_module [(''noise'', \<lparr>data = Single (initial N ''noise''),
                              constraint = Some noise_constraint\<rparr>)]"

definition gpytorch_ConstantMean :: "numerics \<Rightarrow> Module" where
  "gpytorch_ConstantMean N =
     new_module [(''constant'', \<lparr>data = Single (initial N ''constant''), constraint = None\<rparr>)]"

definition gpytorch_PeriodicKernel :: "numerics \<Rightarrow> Module" where
  "gpytorch_PeriodicKernel N =
     new_module
       [(''lengthscale'', \<lparr>data = Single (initial N ''lengthscale''),
                            constraint = Some Positive\<rparr>),
        (''period_length'', \<lparr>data = Single (initial N ''period_length''),
                              constraint = Some Positive\<rparr>)]"

definition gpytorch_ScaleKernel :: "numerics \<Rightarrow> Module \<Rightarrow> scale_kernel" where
  "gpytorch_ScaleKernel N k =
     \<lparr>scale = new_module [(''outputscale'', \<lparr>data = Single (initial N ''outputscale''),
                                             constraint = Some Positive\<rparr>)],
      base_kernel = k\<rparr>"

text \<open>
  Modelled from the spec: the compatibility of a distribution's support with a
  parameter's constraint, which the library is left to detect. The notebook's text gives
  the compatible case as a support fully contained in the domain of the parameter; this
  is that containment as a computation (\<open>support_in_domain_iff\<close> below relates it to
  the sets).
\<close>

fun support_in_domain :: "prior \<Rightarrow> constraint option \<Rightarrow> bool" where
  "support_in_domain p None = True"
| "support_in_domain (UniformPrior a b) (Some Positive) = (b < a \<or> 0 < a)"
| "support_in_domain (UniformPrior a b) (Some (GreaterThan c)) = (b < a \<or> c < a)"
| "support_in_domain (NormalPrior mu sigma) (Some c) = False"
| "support_in_domain (LogNormalPrior mu sigma) (Some Positive) = True"
| "support_in_domain (LogNormalPrior mu sigma) (Some (GreaterThan c)) = (c \<le> 0)"

text \<open>
  Modelled from the spec: \<open>register_prior(name, distribution, parameter)\<close>, which is not
  among the sources. It attaches the prior to the named parameter of the module, and
  fails if the distribution's support is incompatible with the parameter's constraint.
  Registering a name again replaces the earlier prior of that name.
\<close>

definition gpytorch_register_prior ::
  "string \<Rightarrow> prior \<Rightarrow> string \<Rightarrow> Module \<Rightarrow> error + Module" where
  "gpytorch_register_prior name p param_name m =
     (case map_of (params m) param_name of
        None \<Rightarrow> Inl (UnknownParameter param_name)
      | Some q \<Rightarrow>
          if support_in_domain p (constraint q)
          then Inr (m\<lparr>priors := filter (\<lambda>e. fst e \<noteq> name) (priors m) @ [(name, p, param_name)]\<rparr>)
          else Inl (InvalidPriorSupport name))"

text \<open>
  Modelled from the spec: the naming of a model's parts, which the library fixes. The
  modules of a model under their qualified names.
\<close>

definition named_modules :: "gp_model \<Rightarrow> (string \<times> Module) list" where
  "named_modules m =
     [(''likelihood'', likelihood m),
      (''mean_module'', mean_module m),
      (''covar_module'', scale (covar_module m)),
      (''covar_module.base_kernel'', base_kernel (covar_module m))]"

definition dotted :: "string \<Rightarrow> string \<Rightarrow> string" where
  "dotted prefix name = prefix @ ''.'' @ name"

text \<open>
  Modelled from the spec: all registered priors of a model (site name, distribution,
  parameter name) and all its parameters, under qualified names.
\<close>

definition registered :: "gp_model \<Rightarrow> (string \<times> prior \<times> string) list" where
  "registered m =
     concat (map (\<lambda>(prefix, md).
                    map (\<lambda>(name, p, pn). (dotted prefix name, p, dotted prefix pn)) (priors md))
               (named_modules m))"

definition parameters :: "gp_model \<Rightarrow> (string \<times> param) list" where
  "parameters m =
     concat (map (\<lambda>(prefix, md). map (\<lambda>(n, q). (dotted prefix n, q)) (params md))
               (named_modules m))"

definition sample_sites :: "gp_model \<Rightarrow> string list" where
  "sample_sites m = map fst (registered m)"

text \<open>
  Modelled from the spec: the sampler run (\<open>MCMC.run\<close> and \<open>get_samples\<close>), which is
  an external library. It performs warmup and sampling and either fails, or returns a
  sample set holding exactly \<open>num_samples\<close> draws for each registered hyperparameter.
\<close>

definition draws :: "numerics \<Rightarrow> string \<Rightarrow> int \<Rightarrow> real list" where
  "draws N site n = map (sampler_draw N site) [0..<nat n]"

definition sampler_run ::
  "numerics \<Rightarrow> mcmc \<Rightarrow> gp_model \<Rightarrow> tensor \<Rightarrow> tensor \<Rightarrow> error + sample_set" where
  "sampler_run N mc m x y =
     (case sampler_fault N of
        Some e \<Rightarrow> Inl e
      | None \<Rightarrow> Inr (map (\<lambda>site. (site, draws N site (mcmc_num_samples mc))) (sample_sites m)))"

text \<open>
  Modelled from the spec: \<open>pyro_load_from_samples\<close>, which is not among the sources.
  It copies the drawn samples into the model's parameter storage: the parameter of
  every registered prior becomes the batched array of that prior's draws.
\<close>

fun set_data :: "string \<Rightarrow> hyper \<Rightarrow> (string \<times> param) list \<Rightarrow> (string \<times> param) list" where
  "set_data n h [] = []"
| "set_data n h ((k, q) # rest) =
     (if k = n then (k, q\<lparr>data := h\<rparr>) # rest else (k, q) # set_data n h rest)"

fun load_samples ::
  "sample_set \<Rightarrow> string \<Rightarrow> (string \<times> prior \<times> string) list \<Rightarrow> (string \<times> param) list
     \<Rightarrow> error + (string \<times> param) list" where
  "load_samples S prefix [] ps = Inr ps"
| "load_samples S prefix ((name, p, pn) # rest) ps =
     (case map_of S (dotted prefix name) of
        None \<Rightarrow> Inl (MissingSample (dotted prefix name))
      | Some xs \<Rightarrow> load_samples S prefix rest (set_data pn (Batch xs) ps))"

definition load_module_samples :: "sample_set \<Rightarrow> string \<Rightarrow> Module \<Rightarrow> error + Module" where
  "load_module_samples S prefix md =
     then_do (load_samples S prefix (priors md) (params md)) (\<lambda>ps. Inr (md\<lparr>params := ps\<rparr>))"

definition gpytorch_pyro_load_from_samples :: "sample_set \<Rightarrow> gp_model \<Rightarrow> error + gp_model" where
  "gpytorch_pyro_load_from_samples S m =
     then_do (load_module_samples S ''likelihood'' (likelihood m)) (\<lambda>lk.
     then_do (load_module_samples S ''mean_module'' (mean_module m)) (\<lambda>mm.
     then_do (load_module_samples S ''covar_module'' (scale (covar_module m))) (\<lambda>sk.
     then_do (load_module_samples S ''covar_module.base_kernel''
                (base_kernel (covar_module m))) (\<lambda>bk.
     Inr (m\<lparr>likelihood := lk, mean_module := mm,
             covar_module := \<lparr>scale = sk, base_kernel = bk\<rparr>\<rparr>)))))"

text \<open>
  Modelled from the spec: the call \<open>model(x)\<close> on a batch of inputs, which is not among
  the sources. The predictive mean has a value for every batch index and every test
  point.
\<close>

definition gpytorch_call ::
  "numerics \<Rightarrow> gp_model \<Rightarrow> real list list list \<Rightarrow> error + MultivariateNormal" where
  "gpytorch_call N m xs =
     Inr \<lparr>mean = map (\<lambda>b. map (predictive_mean N m b) (xs ! b)) [0..<length xs]\<rparr>"

text \<open>
  Modelled from the spec: \<open>state_dict\<close>, \<open>load_strict_shapes\<close> and \<open>load_state_dict\<close>,
  which are not among the sources. The state is a snapshot of every parameter under
  its qualified name. Loading it copies each saved array into the parameter of that
  name, and under the shape-consistency check a saved array of another shape than
  the parameter's is a dimension-mismatch error.
\<close>

definition gpytorch_state_dict :: "gp_model \<Rightarrow> param_state" where
  "gpytorch_state_dict m = map (\<lambda>(n, q). (n, data q)) (parameters m)"

definition gpytorch_load_strict_shapes :: "bool \<Rightarrow> gp_model \<Rightarrow> gp_model" where
  "gpytorch_load_strict_shapes b m =
     m\<lparr>likelihood := (likelihood m)\<lparr>strict_shapes := b\<rparr>,
       mean_module := (mean_module m)\<lparr>strict_shapes := b\<rparr>,
       covar_module := \<lparr>scale = (scale (covar_module m))\<lparr>strict_shapes := b\<rparr>,
                        base_kernel = (base_kernel (covar_module m))\<lparr>strict_shapes := b\<rparr>\<rparr>\<rparr>"

fun load_params ::
  "param_state \<Rightarrow> string \<Rightarrow> bool \<Rightarrow> (string \<times> param) list \<Rightarrow> error + (string \<times> param) list" where
  "load_params sd prefix strict [] = Inr []"
| "load_params sd prefix strict ((n, q) # rest) =
     (case map_of sd (dotted prefix n) of
        None \<Rightarrow> Inl (MissingKey (dotted prefix n))
      | Some h \<Rightarrow>
          if strict \<and> shape h \<noteq> shape (data q) then Inl (ShapeMismatch (dotted prefix n))
          else then_do (load_params sd prefix strict rest) (\<lambda>rest'.
                 Inr ((n, q\<lparr>data := h\<rparr>) # rest')))"

definition load_module_state :: "param_state \<Rightarrow> string \<Rightarrow> Module \<Rightarrow> error + Module" where
  "load_module_state sd prefix md =
     then_do (load_params sd prefix (strict_shapes md) (params md)) (\<lambda>ps.
       Inr (md\<lparr>params := ps\<rparr>))"

definition gpytorch_load_state_dict :: "param_state \<Rightarrow> gp_model \<Rightarrow> error + gp_model" where
  "gpytorch_load_state_dict sd m =
     then_do (load_module_state sd ''likelihood'' (likelihood m)) (\<lambda>lk.
     then_do (load_module_state sd ''mean_module'' (mean_module m)) (\<lambda>mm.
     then_do (load_module_state sd ''covar_module'' (scale (covar_module m))) (\<lambda>sk.
     then_do (load_module_state sd ''covar_module.base_kernel''
                (base_kernel (covar_module m))) (\<lambda>bk.
     Inr (m\<lparr>likelihood := lk, mean_module := mm,
             covar_module := \<lparr>scale = sk, base_kernel = bk\<rparr>\<rparr>)))))"

text \<open>Modelled from the spec: the library made of the operations above.\<close>

definition gpytorch :: "numerics \<Rightarrow> lib" where
  "gpytorch N =
     \<lparr>normal_draw = rng N,
      f32_sin = sin32 N,
      f32_mul = mul32 N,
      f32_add = add32 N,
      GaussianLikelihood = gpytorch_GaussianLikelihood N,
      ConstantMean = gpytorch_ConstantMean N,
      PeriodicKernel = gpytorch_PeriodicKernel N,
      ScaleKernel = gpytorch_ScaleKernel N,
      register_prior = gpytorch_register_prior,
      run = sampler_run N,
      pyro_load_from_samples = gpytorch_pyro_load_from_samples,
      call = gpytorch_call N,
      state_dict = gpytorch_state_dict,
      load_strict_shapes = gpytorch_load_strict_shapes,
      load_state_dict = gpytorch_load_state_dict\<rparr>"

text \<open>
  One choice of the numerical parameters, for the concrete runs below: arithmetic that
  happens to round nothing, and a sampler that returns normally and draws inside each
  prior's support.
\<close>

definition example_numerics :: numerics where
  "example_numerics =
     \<lparr>rng = (\<lambda>i. if even i then 1 else - 1),
      sin32 = sin,
      mul32 = (*),
      add32 = (+),
      initial = (\<lambda>n. if n = ''constant'' then 0 else 1),
      sampler_fault = None,
      sampler_draw =
        (\<lambda>site i. if site = ''covar_module.outputscale_prior'' then 3 / 2 else 1 / 4),
      predictive_mean = (\<lambda>m b x. 0)\<rparr>"

text \<open>
  The three ways of loading a saved state into a model \<open>m0\<close>: after
  \<open>load_strict_shapes(False)\<close> as in cell 12, with the call left out, and with the
  check switched on explicitly.
\<close>

abbreviation reload_outcomes :: "lib \<Rightarrow> param_state \<Rightarrow> gp_model \<Rightarrow> bool" where
  "reload_outcomes L saved m0 \<equiv>
     (\<exists>m. load_state_dict L saved (load_strict_shapes L False m0) = Inr m
          \<and> state_dict L m = saved)
     \<and> load_state_dict L saved m0 = Inl (ShapeMismatch ''mean_module.constant'')
     \<and> load_state_dict L saved (load_strict_shapes L True m0)
         = Inl (ShapeMismatch ''mean_module.constant'')"

section \<open>Basic facts\<close>

lemma then_do_Inl [simp]: "then_do (Inl e) f = Inl e"
  by (simp add: then_do_def)

lemma then_do_Inr [simp]: "then_do (Inr x) f = f x"
  by (simp add: then_do_def)

lemma then_do_eq_Inr: "then_do m f = Inr y \<longleftrightarrow> (\<exists>x. m = Inr x \<and> f x = Inr y)"
  by (cases m) simp_all

lemma then_do_eq_Inl:
  "then_do m f = Inl e \<longleftrightarrow> m = Inl e \<or> (\<exists>x. m = Inr x \<and> f x = Inl e)"
  by (cases m) simp_all

lemmas ns_defs = ns2.defs ns5_setup.defs ns5.defs ns8.defs ns10.defs ns12.defs

lemma example_no_fault [simp]: "sampler_fault example_numerics = None"
  by (simp add: example_numerics_def)

subsection \<open>The training data through the cells\<close>








lemma cell8_test_x:
  "cell8 L s = Inr s' \<Longrightarrow> test_x s' = unsqueeze_last (linspace 0 1 101)"
  by (auto simp: cell8_def Let_def then_do_eq_Inr ns_defs)

lemma cell10_data:
  "cell10 s = Inr s' \<Longrightarrow>
     train_x s' = train_x s \<and> train_y s' = train_y s \<and> test_x s' = test_x s"
  by (auto simp: cell10_def Let_def then_do_eq_Inr ns_defs)

lemma cell10_frame:
  "cell10 s = Inr s' \<Longrightarrow>
     model s' = model s \<and> num_samples s' = num_samples s \<and> smoke_test s' = smoke_test s"
  by (auto simp: cell10_def Let_def then_do_eq_Inr ns_defs)



subsection \<open>The plotting loop\<close>

lemma plot_means_lines:
  "plot_means js x rows a = Inr a' \<Longrightarrow>
   a' = a\<lparr>lines := lines a @ map (\<lambda>i. \<lparr>xdata = x, ydata = rows ! i, fmt = ''b''\<rparr>) js\<rparr>"
proof (induction js arbitrary: a)
  case Nil
  then show ?case by simp
next
  case (Cons i rest)
  from Cons.prems have "i < length rows"
    and "plot_means rest x rows (plot a x (rows ! i) ''b'') = Inr a'"
    by (auto split: if_splits)
  from Cons.IH [OF this(2)] show ?case
    by (simp add: plot_def)
qed

lemma plot_means_succeeds:
  "\<forall>i \<in> set js. i < length rows \<Longrightarrow> \<exists>a'. plot_means js x rows a = Inr a'"
  by (induction js arbitrary: a) auto

lemma cell10_succeeds:
  assumes "nat (min (num_samples s) 25) \<le> length (mean (predicted s))"
  shows "\<exists>s'. cell10 s = Inr s'"
proof -
  have "\<forall>i \<in> set [0..<nat (min (num_samples s) 25)]. i < length (mean (predicted s))"
    using assms by auto
  from plot_means_succeeds [OF this]
  obtain a' where "plot_means [0..<nat (min (num_samples s) 25)] (concat (test_x s))
      (mean (predicted s)) (plot subplots (train_x s) (train_y s) ''k*'') = Inr a'"
    by blast
  then show ?thesis by (simp add: cell10_def Let_def)
qed

lemma cell10_curves:
  assumes "cell10 s = Inr s'"
  shows "length (filter (\<lambda>l. fmt l = ''b'') (lines (ax s'))) = nat (min (num_samples s) 25)"
proof -
  from assms obtain a1 where
    a1: "plot_means [0..<nat (min (num_samples s) 25)] (concat (test_x s))
      (mean (predicted s)) (plot subplots (train_x s) (train_y s) ''k*'') = Inr a1"
    and s': "lines (ax s') = lines a1"
    by (auto simp: cell10_def Let_def then_do_eq_Inr ns_defs)
  from plot_means_lines [OF a1] s' show ?thesis
    by (simp add: plot_def subplots_def o_def)
qed

subsection \<open>Running the notebook on the library of the previous section\<close>

lemma gpytorch_sel [simp]:
  "normal_draw (gpytorch N) = rng N"
  "f32_sin (gpytorch N) = sin32 N"
  "f32_mul (gpytorch N) = mul32 N"
  "f32_add (gpytorch N) = add32 N"
  "GaussianLikelihood (gpytorch N) = gpytorch_GaussianLikelihood N"
  "ConstantMean (gpytorch N) = gpytorch_ConstantMean N"
  "PeriodicKernel (gpytorch N) = gpytorch_PeriodicKernel N"
  "ScaleKernel (gpytorch N) = gpytorch_ScaleKernel N"
  "register_prior (gpytorch N) = gpytorch_register_prior"
  "run (gpytorch N) = sampler_run N"
  "pyro_load_from_samples (gpytorch N) = gpytorch_pyro_load_from_samples"
  "call (gpytorch N) = gpytorch_call N"
  "state_dict (gpytorch N) = gpytorch_state_dict"
  "load_strict_shapes (gpytorch N) = gpytorch_load_strict_shapes"
  "load_state_dict (gpytorch N) = gpytorch_load_state_dict"
  by (simp_all add: gpytorch_def)

lemmas ctor_defs = gpytorch_GaussianLikelihood_def gpytorch_ConstantMean_def
  gpytorch_PeriodicKernel_def gpytorch_ScaleKernel_def new_module_def

lemmas gp_defs = sampler_run_def sample_sites_def registered_def parameters_def
  named_modules_def dotted_def gpytorch_pyro_load_from_samples_def load_module_samples_def
  ctor_defs gpytorch_state_dict_def

lemmas load_defs = gpytorch_load_strict_shapes_def gpytorch_load_state_dict_def
  load_module_state_def gpytorch_call_def model_eval_def ExactGPModel_def unsqueeze_repeat_def

lemmas stage_defs = after_cell7_def after_cell5_def cell5_def cell5_run_def cell7_def

lemma length_draws: "length (draws N site n) = nat n"
  by (simp add: draws_def)

lemma register_priors_gpytorch:
  "register_priors (gpytorch N)
     (ExactGPModel (gpytorch N) tx ty (gpytorch_GaussianLikelihood N Positive)) =
   Inr \<lparr>train_inputs = tx, train_targets = ty,
        likelihood = (gpytorch_GaussianLikelihood N Positive)
          \<lparr>priors := [(''noise_prior'', UniformPrior 0.05 0.3, ''noise'')]\<rparr>,
        mean_module = (gpytorch_ConstantMean N)
          \<lparr>priors := [(''mean_prior'', UniformPrior (-1) 1, ''constant'')]\<rparr>,
        covar_module =
          \<lparr>scale = (scale (gpytorch_ScaleKernel N (gpytorch_PeriodicKernel N)))
             \<lparr>priors := [(''outputscale_prior'', UniformPrior 1 2, ''outputscale'')]\<rparr>,
           base_kernel = (gpytorch_PeriodicKernel N)
             \<lparr>priors := [(''lengthscale_prior'', UniformPrior 0.01 0.5, ''lengthscale''),
                         (''period_length_prior'', UniformPrior 0.05 2.5, ''period_length'')]\<rparr>\<rparr>,
        training = True\<rparr>"
  by (simp add: register_priors_def ExactGPModel_def ctor_defs gpytorch_register_prior_def Let_def)

lemma cell5_setup_gpytorch:
  "cell5_setup (gpytorch N) env v =
   Inr \<lparr>train_x = train_x v, train_y = train_y v,
        smoke_test = (''CI'' \<in> dom env),
        num_samples = (if ''CI'' \<in> dom env then 2 else 100),
        warmup_steps = (if ''CI'' \<in> dom env then 2 else 200),
        model = \<lparr>train_inputs = train_x v, train_targets = train_y v,
          likelihood = (gpytorch_GaussianLikelihood N Positive)
            \<lparr>priors := [(''noise_prior'', UniformPrior 0.05 0.3, ''noise'')]\<rparr>,
          mean_module = (gpytorch_ConstantMean N)
            \<lparr>priors := [(''mean_prior'', UniformPrior (-1) 1, ''constant'')]\<rparr>,
          covar_module =
            \<lparr>scale = (scale (gpytorch_ScaleKernel N (gpytorch_PeriodicKernel N)))
               \<lparr>priors := [(''outputscale_prior'', UniformPrior 1 2, ''outputscale'')]\<rparr>,
             base_kernel = (gpytorch_PeriodicKernel N)
               \<lparr>priors := [(''lengthscale_prior'', UniformPrior 0.01 0.5, ''lengthscale''),
                           (''period_length_prior'', UniformPrior 0.05 2.5,
                            ''period_length'')]\<rparr>\<rparr>,
          training = True\<rparr>,
        mcmc_run = MCMC (NUTS True) (if ''CI'' \<in> dom env then 2 else 100)
                     (if ''CI'' \<in> dom env then 2 else 200) (''CI'' \<in> dom env)\<rparr>"
  by (simp add: cell5_setup_def Let_def register_priors_gpytorch ns_defs)

lemma after_cell8_reload:
  assumes "sampler_fault N = None"
  shows "\<exists>s. after_cell8 (gpytorch N) env = Inr s
     \<and> length (mean (predicted s)) = nat (num_samples s)
     \<and> num_samples s = (if ''CI'' \<in> dom env then 2 else 100)
     \<and> reload_outcomes (gpytorch N) (gpytorch_state_dict (model s))
          (ExactGPModel (gpytorch N) (train_x s) (train_y s) (likelihood (model s)))"
  using assms
  by (simp add: after_cell8_def cell8_def Let_def stage_defs cell5_setup_gpytorch gp_defs ns_defs
      load_defs)

lemma notebook_gpytorch:
  assumes "sampler_fault N = None"
  shows "\<exists>s10 s12. after_cell10 (gpytorch N) env = Inr s10 \<and> notebook (gpytorch N) env = Inr s12
     \<and> num_samples s10 = (if ''CI'' \<in> dom env then 2 else 100)
     \<and> reload_outcomes (gpytorch N) (state_dict (gpytorch N) (model s10))
          (ExactGPModel (gpytorch N) (train_x s10) (train_y s10) (likelihood (model s10)))
     \<and> saved_state s12 = state_dict (gpytorch N) (model s10)
     \<and> state_dict (gpytorch N) (model s12) = saved_state s12"
proof -
  from after_cell8_reload [OF assms, of env] obtain s8 where
    s8: "after_cell8 (gpytorch N) env = Inr s8"
    and rows: "length (mean (predicted s8)) = nat (num_samples s8)"
    and n8: "num_samples s8 = (if ''CI'' \<in> dom env then 2 else 100)"
    and re: "reload_outcomes (gpytorch N) (gpytorch_state_dict (model s8))
          (ExactGPModel (gpytorch N) (train_x s8) (train_y s8) (likelihood (model s8)))"
    by blast
  from rows have "nat (min (num_samples s8) 25) \<le> length (mean (predicted s8))" by simp
  from cell10_succeeds [OF this] obtain s10 where c10: "cell10 s8 = Inr s10" by blast
  with s8 have s10: "after_cell10 (gpytorch N) env = Inr s10" by (simp add: after_cell10_def)
  from c10 have same: "model s10 = model s8" "train_x s10 = train_x s8" "train_y s10 = train_y s8"
    "num_samples s10 = num_samples s8"
    using cell10_frame cell10_data by blast+
  from re same have re10: "reload_outcomes (gpytorch N) (state_dict (gpytorch N) (model s10))
          (ExactGPModel (gpytorch N) (train_x s10) (train_y s10) (likelihood (model s10)))"
    by simp
  then obtain m where m: "load_state_dict (gpytorch N) (state_dict (gpytorch N) (model s10))
       (load_strict_shapes (gpytorch N) False
          (ExactGPModel (gpytorch N) (train_x s10) (train_y s10) (likelihood (model s10)))) = Inr m"
     and again: "state_dict (gpytorch N) m = state_dict (gpytorch N) (model s10)"
    by blast
  have "\<exists>s12. notebook (gpytorch N) env = Inr s12
       \<and> saved_state s12 = state_dict (gpytorch N) (model s10) \<and> model s12 = m"
    using s10 m by (simp add: notebook_def cell12_def Let_def ns_defs)
  with s10 re10 again same n8 show ?thesis by auto
qed

subsection \<open>What the cells read of the environment and of the library\<close>

lemma cell5_setup_env:
  "(''CI'' \<in> dom env \<longleftrightarrow> ''CI'' \<in> dom env') \<Longrightarrow> cell5_setup L env v = cell5_setup L env' v"
  by (simp add: cell5_setup_def)

lemma after_cell10_load_strict_shapes:
  "after_cell10 (L\<lparr>load_strict_shapes := f\<rparr>) env = after_cell10 L env"
proof -
  let ?L = "L\<lparr>load_strict_shapes := f\<rparr>"
  have ops: "sin_tensor ?L = sin_tensor L" "mul ?L = mul L" "add ?L = add L"
    "randn ?L = randn L"
    by (simp_all add: fun_eq_iff sin_tensor_def mul_def add_def randn_def)
  have 2: "cell2 ?L = cell2 L"
    by (simp add: cell2_def ops)
  have r: "register_priors ?L = register_priors L"
    by (simp add: fun_eq_iff register_priors_def)
  have run: "cell5_run ?L = cell5_run L"
    by (simp add: fun_eq_iff cell5_run_def)
  have 5: "cell5 ?L = cell5 L"
    by (simp add: fun_eq_iff cell5_def run cell5_setup_def ExactGPModel_def r)
  have 7: "cell7 ?L = cell7 L"
    by (simp add: fun_eq_iff cell7_def)
  have 8: "cell8 ?L = cell8 L"
    by (simp add: fun_eq_iff cell8_def ops)
  show ?thesis
    by (simp add: after_cell10_def after_cell8_def after_cell7_def after_cell5_def 2 5 7 8)
qed

subsection \<open>Supports and domains\<close>

lemma registered_after_setup:
  assumes "cell5_setup (gpytorch N) env v = Inr s"
  shows "registered (model s) =
            [(''likelihood.noise_prior'', UniformPrior 0.05 0.3, ''likelihood.noise''),
             (''mean_module.mean_prior'', UniformPrior (-1) 1, ''mean_module.constant''),
             (''covar_module.outputscale_prior'', UniformPrior 1 2, ''covar_module.outputscale''),
             (''covar_module.base_kernel.lengthscale_prior'', UniformPrior 0.01 0.5,
              ''covar_module.base_kernel.lengthscale''),
             (''covar_module.base_kernel.period_length_prior'', UniformPrior 0.05 2.5,
              ''covar_module.base_kernel.period_length'')]"
  using assms by (auto simp: cell5_setup_gpytorch gp_defs)

lemma parameters_after_setup:
  assumes "cell5_setup (gpytorch N) env v = Inr s"
  shows "parameters (model s) =
     [(''likelihood.noise'',
       \<lparr>data = Single (initial N ''noise''), constraint = Some Positive\<rparr>),
      (''mean_module.constant'',
       \<lparr>data = Single (initial N ''constant''), constraint = None\<rparr>),
      (''covar_module.outputscale'',
       \<lparr>data = Single (initial N ''outputscale''), constraint = Some Positive\<rparr>),
      (''covar_module.base_kernel.lengthscale'',
       \<lparr>data = Single (initial N ''lengthscale''), constraint = Some Positive\<rparr>),
      (''covar_module.base_kernel.period_length'',
       \<lparr>data = Single (initial N ''period_length''), constraint = Some Positive\<rparr>)]"
  using assms by (auto simp: cell5_setup_gpytorch gp_defs)

lemma support_in_domain_iff: "support_in_domain p c \<longleftrightarrow> support p \<subseteq> domain c"
proof (cases c)
  case None
  then show ?thesis by simp
next
  case (Some k)
  show ?thesis
  proof (cases p)
    case (UniformPrior a b)
    then show ?thesis using Some
      by (cases k) (auto simp: subset_iff not_less intro: order.strict_trans2)
  next
    case (NormalPrior mu sigma)
    have "\<exists>x::real. \<not> 0 < x" "\<And>r. \<exists>x::real. \<not> r < x"
      by (auto intro: exI [of _ 0] simp: not_less intro: order_refl)
    with NormalPrior Some show ?thesis
      by (cases k) (auto simp: subset_iff)
  next
    case (LogNormalPrior mu sigma)
    show ?thesis
    proof (cases k)
      case Positive
      with LogNormalPrior Some show ?thesis by simp
    next
      case (GreaterThan r)
      have "(\<forall>x::real. 0 < x \<longrightarrow> r < x) \<longleftrightarrow> r \<le> 0"
      proof
        assume a: "\<forall>x::real. 0 < x \<longrightarrow> r < x"
        show "r \<le> 0"
        proof (rule ccontr)
          assume "\<not> r \<le> 0"
          then have "0 < r" by simp
          with a have "r < r" by blast
          then show False by simp
        qed
      next
        assume "r \<le> 0" then show "\<forall>x::real. 0 < x \<longrightarrow> r < x" by auto
      qed
      with GreaterThan LogNormalPrior Some show ?thesis
        by (simp add: subset_iff)
    qed
  qed
qed

lemma positive_not_bounded: "\<not> {0::real<..} \<subseteq> {a..b}"
proof
  assume "{0::real<..} \<subseteq> {a..b}"
  moreover have "max b 0 + 1 \<in> {0::real<..}" by simp
  ultimately have "max b 0 + 1 \<in> {a..b}" by blast
  then show False by (simp add: max_def split: if_splits)
qed

lemma reals_not_bounded: "\<not> (UNIV :: real set) \<subseteq> {a..b}"
proof
  assume "(UNIV :: real set) \<subseteq> {a..b}"
  then have "b + 1 \<in> {a..b}" by blast
  then show False by simp
qed

subsection \<open>What cell 10 plots\<close>

lemma plot_means_in_range:
  "plot_means js x rows a = Inr a' \<Longrightarrow> \<forall>i \<in> set js. i < length rows"
  by (induction js arbitrary: a) (auto split: if_splits)

lemma cell10_plot:
  assumes "cell10 s = Inr s'"
  shows "lines (ax s') =
           \<lparr>xdata = train_x s, ydata = train_y s, fmt = ''k*''\<rparr>
           # map (\<lambda>i. \<lparr>xdata = concat (test_x s), ydata = mean (predicted s) ! i, fmt = ''b''\<rparr>)
               [0..<nat (min (num_samples s) 25)]"
    and "nat (min (num_samples s) 25) \<le> length (mean (predicted s))"
    and "ylim (ax s') = Some (- 3, 3)"
    and "legend (ax s') = [''Observed Data'', ''Sampled Means'']"
proof -
  from assms obtain a1 where
    a1: "plot_means [0..<nat (min (num_samples s) 25)] (concat (test_x s))
      (mean (predicted s)) (plot subplots (train_x s) (train_y s) ''k*'') = Inr a1"
    and s': "ax s' = a1\<lparr>ylim := Some (- 3, 3), legend := [''Observed Data'', ''Sampled Means'']\<rparr>"
    by (auto simp: cell10_def Let_def then_do_eq_Inr ns_defs)
  from plot_means_lines [OF a1] s'
  show "lines (ax s') =
           \<lparr>xdata = train_x s, ydata = train_y s, fmt = ''k*''\<rparr>
           # map (\<lambda>i. \<lparr>xdata = concat (test_x s), ydata = mean (predicted s) ! i, fmt = ''b''\<rparr>)
               [0..<nat (min (num_samples s) 25)]"
    by (simp add: plot_def subplots_def)
  from plot_means_in_range [OF a1]
  show "nat (min (num_samples s) 25) \<le> length (mean (predicted s))"
    by (cases "nat (min (num_samples s) 25)") auto
  from s' show "ylim (ax s') = Some (- 3, 3)"
    and "legend (ax s') = [''Observed Data'', ''Sampled Means'']"
    by simp_all
qed

lemma cell10_reads:
  "cell10 s = Inr s' \<Longrightarrow> test_x s' = test_x s \<and> predicted s' = predicted s"
  by (auto simp: cell10_def Let_def then_do_eq_Inr ns_defs)

lemma cell8_predicted:
  "cell8 L s = Inr s' \<Longrightarrow>
     call L (model_eval (model s))
       (unsqueeze_repeat (num_samples s) (unsqueeze_last (linspace 0 1 101))) = Inr (predicted s')
     \<and> num_samples s' = num_samples s"
  by (auto simp: cell8_def Let_def then_do_eq_Inr ns_defs)

lemma after_cell7_num_samples:
  "after_cell7 L env = Inr s \<Longrightarrow> num_samples s = (if ''CI'' \<in> dom env then 2 else 100)"
  by (auto simp: after_cell7_def after_cell5_def cell7_def cell5_def cell5_run_def
      cell5_setup_def Let_def then_do_eq_Inr ns_defs split: if_splits)

subsection \<open>Failures inside the cells\<close>

lemma plot_means_fails:
  "\<exists>i \<in> set js. \<not> i < length rows \<Longrightarrow> plot_means js x rows a = Inl IndexError"
  by (induction js arbitrary: a) auto

lemma fails_after_setup:
  "cell5_setup L env (cell2 L) = Inl e \<Longrightarrow> notebook L env = Inl e"
  by (simp add: notebook_def after_cell10_def after_cell8_def after_cell7_def after_cell5_def
      cell5_def)

subsection \<open>Variables no later cell reads\<close>

lemma cell5_run_unread:
  "cell5_run L (s\<lparr>smoke_test := b, warmup_steps := w\<rparr>)
     = then_do (cell5_run L s) (\<lambda>t. Inr (t\<lparr>smoke_test := b, warmup_steps := w\<rparr>))"
  by (cases "run L (mcmc_run s) (model s) (train_x s) (train_y s)")
     (simp_all add: cell5_run_def ns_defs)

lemma cell7_unread:
  "cell7 L (s\<lparr>smoke_test := b, warmup_steps := w\<rparr>)
     = then_do (cell7 L s) (\<lambda>t. Inr (t\<lparr>smoke_test := b, warmup_steps := w\<rparr>))"
  "cell7 L (s\<lparr>mcmc_run := mc\<rparr>) = then_do (cell7 L s) (\<lambda>t. Inr (t\<lparr>mcmc_run := mc\<rparr>))"
  by (cases "pyro_load_from_samples L (samples s) (model s)"; simp add: cell7_def)+

lemma cell8_unread:
  "cell8 L (s\<lparr>smoke_test := b, warmup_steps := w\<rparr>)
     = then_do (cell8 L s) (\<lambda>t. Inr (t\<lparr>smoke_test := b, warmup_steps := w\<rparr>))"
  "cell8 L (s\<lparr>mcmc_run := mc\<rparr>) = then_do (cell8 L s) (\<lambda>t. Inr (t\<lparr>mcmc_run := mc\<rparr>))"
  by (cases "call L (model_eval (model s))
        (unsqueeze_repeat (num_samples s) (unsqueeze_last (linspace 0 1 101)))";
      simp add: cell8_def Let_def ns_defs)+

lemma cell10_unread:
  "cell10 (s\<lparr>smoke_test := b, warmup_steps := w\<rparr>)
     = then_do (cell10 s) (\<lambda>t. Inr (t\<lparr>smoke_test := b, warmup_steps := w\<rparr>))"
  "cell10 (s\<lparr>mcmc_run := mc\<rparr>) = then_do (cell10 s) (\<lambda>t. Inr (t\<lparr>mcmc_run := mc\<rparr>))"
  by (cases "plot_means [0..<nat (min (num_samples s) 25)] (concat (test_x s))
        (mean (predicted s)) (plot subplots (train_x s) (train_y s) ''k*'')";
      simp add: cell10_def Let_def ns_defs)+

lemma cell12_unread:
  "cell12 L (s\<lparr>smoke_test := b, warmup_steps := w\<rparr>)
     = then_do (cell12 L s) (\<lambda>t. Inr (t\<lparr>smoke_test := b, warmup_steps := w\<rparr>))"
  "cell12 L (s\<lparr>mcmc_run := mc\<rparr>) = then_do (cell12 L s) (\<lambda>t. Inr (t\<lparr>mcmc_run := mc\<rparr>))"
  by (cases "load_state_dict L (state_dict L (model s))
        (load_strict_shapes L False
           (ExactGPModel L (train_x s) (train_y s) (likelihood (model s))))";
      simp add: cell12_def Let_def ns_defs)+

lemma rest_unread:
  "then_do (then_do (then_do (then_do
       (cell5_run L (s\<lparr>smoke_test := b, warmup_steps := w\<rparr>)) (cell7 L)) (cell8 L)) cell10)
       (cell12 L)
   = then_do (then_do (then_do (then_do (then_do
       (cell5_run L s) (cell7 L)) (cell8 L)) cell10) (cell12 L))
       (\<lambda>t. Inr (t\<lparr>smoke_test := b, warmup_steps := w\<rparr>))"
proof -
  have 1: "then_do (cell5_run L (s\<lparr>smoke_test := b, warmup_steps := w\<rparr>)) (cell7 L)
      = then_do (then_do (cell5_run L s) (cell7 L))
          (\<lambda>t. Inr (t\<lparr>smoke_test := b, warmup_steps := w\<rparr>))"
    by (cases "cell5_run L s") (simp_all add: cell5_run_unread cell7_unread)
  have 2: "then_do (then_do (cell5_run L (s\<lparr>smoke_test := b, warmup_steps := w\<rparr>)) (cell7 L))
        (cell8 L)
      = then_do (then_do (then_do (cell5_run L s) (cell7 L)) (cell8 L))
          (\<lambda>t. Inr (t\<lparr>smoke_test := b, warmup_steps := w\<rparr>))"
    by (cases "then_do (cell5_run L s) (cell7 L)") (simp_all add: 1 cell8_unread)
  have 3: "then_do (then_do (then_do
        (cell5_run L (s\<lparr>smoke_test := b, warmup_steps := w\<rparr>)) (cell7 L)) (cell8 L)) cell10
      = then_do (then_do (then_do (then_do (cell5_run L s) (cell7 L)) (cell8 L)) cell10)
          (\<lambda>t. Inr (t\<lparr>smoke_test := b, warmup_steps := w\<rparr>))"
    by (cases "then_do (then_do (cell5_run L s) (cell7 L)) (cell8 L)")
       (simp_all add: 2 cell10_unread)
  show ?thesis
    by (cases "then_do (then_do (then_do (cell5_run L s) (cell7 L)) (cell8 L)) cell10")
       (simp_all add: 3 cell12_unread)
qed

lemma after_run_unread:
  "then_do (then_do (then_do (cell7 L (s\<lparr>mcmc_run := mc\<rparr>)) (cell8 L)) cell10) (cell12 L)
   = then_do (then_do (then_do (then_do (cell7 L s) (cell8 L)) cell10) (cell12 L))
       (\<lambda>t. Inr (t\<lparr>mcmc_run := mc\<rparr>))"
proof -
  have 1: "then_do (cell7 L (s\<lparr>mcmc_run := mc\<rparr>)) (cell8 L)
      = then_do (then_do (cell7 L s) (cell8 L)) (\<lambda>t. Inr (t\<lparr>mcmc_run := mc\<rparr>))"
    by (cases "cell7 L s") (simp_all add: cell7_unread cell8_unread)
  have 2: "then_do (then_do (cell7 L (s\<lparr>mcmc_run := mc\<rparr>)) (cell8 L)) cell10
      = then_do (then_do (then_do (cell7 L s) (cell8 L)) cell10)
          (\<lambda>t. Inr (t\<lparr>mcmc_run := mc\<rparr>))"
    by (cases "then_do (cell7 L s) (cell8 L)") (simp_all add: 1 cell10_unread)
  show ?thesis
    by (cases "then_do (then_do (cell7 L s) (cell8 L)) cell10") (simp_all add: 2 cell12_unread)
qed

lemma notebook_unfold:
  "notebook L env =
     then_do (cell5_setup L env (cell2 L)) (\<lambda>s.
       then_do (then_do (then_do (then_do (cell5_run L s) (cell7 L)) (cell8 L)) cell10)
         (cell12 L))"
  by (cases "cell5_setup L env (cell2 L)")
     (simp_all add: notebook_def after_cell10_def after_cell8_def after_cell7_def after_cell5_def
        cell5_def)

lemma sample_count_unread:
  "cell7 L (s\<lparr>num_samples := n\<rparr>) = then_do (cell7 L s) (\<lambda>t. Inr (t\<lparr>num_samples := n\<rparr>))"
  "cell12 L (u\<lparr>num_samples := n\<rparr>) = then_do (cell12 L u) (\<lambda>t. Inr (t\<lparr>num_samples := n\<rparr>))"
proof -
  show "cell7 L (s\<lparr>num_samples := n\<rparr>) = then_do (cell7 L s) (\<lambda>t. Inr (t\<lparr>num_samples := n\<rparr>))"
    by (cases "pyro_load_from_samples L (samples s) (model s)") (simp_all add: cell7_def)
  show "cell12 L (u\<lparr>num_samples := n\<rparr>) = then_do (cell12 L u) (\<lambda>t. Inr (t\<lparr>num_samples := n\<rparr>))"
    by (cases "load_state_dict L (state_dict L (model u))
        (load_strict_shapes L False
           (ExactGPModel L (train_x u) (train_y u) (likelihood (model u))))")
       (simp_all add: cell12_def Let_def ns_defs)
qed

lemma cell8_sample_count:
  assumes "cell8 L s = Inr s'"
  shows "model s' = model_eval (model s)"
    and "test_x s' = unsqueeze_last (linspace 0 1 101)"
    and "test_y s' = map (sin_tensor L) (map (\<lambda>row. mul L row (2 * math_pi)) (test_x s'))"
    and "expanded_test_x s' = unsqueeze_repeat (num_samples s) (test_x s')"
    and "call L (model s') (expanded_test_x s') = Inr (predicted s')"
  using assms by (auto simp: cell8_def Let_def then_do_eq_Inr ns_defs)

lemma cell10_sample_count:
  assumes "min n 25 = min (num_samples s) 25"
  shows "cell10 (s\<lparr>num_samples := n\<rparr>) = then_do (cell10 s) (\<lambda>t. Inr (t\<lparr>num_samples := n\<rparr>))"
  using assms
  by (cases "plot_means [0..<nat (min (num_samples s) 25)] (concat (test_x s))
        (mean (predicted s)) (plot subplots (train_x s) (train_y s) ''k*'')")
     (simp_all add: cell10_def Let_def ns_defs)

section \<open>The claims\<close>



text \<open>
  C9. The loop of cell 10 draws exactly \<open>min(num_samples, 25)\<close> curves, and each is a
  predictive mean: the lines of format \<open>b\<close> are, in order, the rows
  \<open>output.mean[i]\<close> for \<open>i\<close> below \<open>min(num_samples, 25)\<close>, each against the test inputs.
  So there are never more than 25, and exactly \<open>num_samples\<close> of them when that is
  below 25; the cell returns exactly when the predictive mean has that many rows. In a
  run of the notebook \<open>output\<close> is what the call of the model in evaluation mode
  returned on the repeated test inputs, and the curves are its first 2 rows under the
  smoke-test configuration and its first 25 otherwise.
\<close>

theorem plotted_mean_curves:
  "(\<forall>s s'. cell10 s = Inr s' \<longrightarrow>
      filter (\<lambda>l. fmt l = ''b'') (lines (ax s'))
        = map (\<lambda>i. \<lparr>xdata = concat (test_x s), ydata = mean (predicted s) ! i, fmt = ''b''\<rparr>)
            [0..<nat (min (num_samples s) 25)]
      \<and> nat (min (num_samples s) 25) \<le> length (mean (predicted s))
      \<and> length (filter (\<lambda>l. fmt l = ''b'') (lines (ax s'))) = nat (min (num_samples s) 25)
      \<and> length (filter (\<lambda>l. fmt l = ''b'') (lines (ax s'))) \<le> 25
      \<and> (0 \<le> num_samples s \<and> num_samples s < 25 \<longrightarrow>
           int (length (filter (\<lambda>l. fmt l = ''b'') (lines (ax s')))) = num_samples s))
   \<and> (\<forall>s. nat (min (num_samples s) 25) \<le> length (mean (predicted s)) \<longrightarrow>
          (\<exists>s'. cell10 s = Inr s'))
   \<and> (\<forall>L env s. after_cell10 L env = Inr s \<longrightarrow>
          num_samples s = (if ''CI'' \<in> dom env then 2 else 100)
          \<and> (\<exists>s7. after_cell7 L env = Inr s7
                \<and> call L (model_eval (model s7))
                     (unsqueeze_repeat (num_samples s7) (unsqueeze_last (linspace 0 1 101)))
                   = Inr (predicted s))
          \<and> filter (\<lambda>l. fmt l = ''b'') (lines (ax s))
              = map (\<lambda>i. \<lparr>xdata = concat (unsqueeze_last (linspace 0 1 101)),
                           ydata = mean (predicted s) ! i, fmt = ''b''\<rparr>)
                  [0..<(if ''CI'' \<in> dom env then 2 else 25)]
          \<and> length (filter (\<lambda>l. fmt l = ''b'') (lines (ax s)))
              = (if ''CI'' \<in> dom env then 2 else 25))"
proof (intro conjI allI impI)
  fix s :: ns8 and s' :: ns10 assume c: "cell10 s = Inr s'"
  from cell10_plot(1) [OF c]
  show curves: "filter (\<lambda>l. fmt l = ''b'') (lines (ax s'))
        = map (\<lambda>i. \<lparr>xdata = concat (test_x s), ydata = mean (predicted s) ! i, fmt = ''b''\<rparr>)
            [0..<nat (min (num_samples s) 25)]"
    by (simp add: filter_map o_def)
  from cell10_plot(2) [OF c]
  show "nat (min (num_samples s) 25) \<le> length (mean (predicted s))" .
  from curves
  show n: "length (filter (\<lambda>l. fmt l = ''b'') (lines (ax s'))) = nat (min (num_samples s) 25)"
    by simp
  then show "length (filter (\<lambda>l. fmt l = ''b'') (lines (ax s'))) \<le> 25" by simp
  assume "0 \<le> num_samples s \<and> num_samples s < 25"
  with n show "int (length (filter (\<lambda>l. fmt l = ''b'') (lines (ax s')))) = num_samples s"
    by simp
next
  fix s :: ns8 assume "nat (min (num_samples s) 25) \<le> length (mean (predicted s))"
  then show "\<exists>s'. cell10 s = Inr s'" by (rule cell10_succeeds)
next
  fix L env and s :: ns10 assume a: "after_cell10 L env = Inr s"
  then obtain s8 where s8: "after_cell8 L env = Inr s8" and c: "cell10 s8 = Inr s"
    by (auto simp: after_cell10_def then_do_eq_Inr)
  from s8 obtain s7 where s7: "after_cell7 L env = Inr s7" and c8: "cell8 L s7 = Inr s8"
    by (auto simp: after_cell8_def then_do_eq_Inr)
  note n7 = after_cell7_num_samples [OF s7]
  from cell8_predicted [OF c8] n7
  have n8: "num_samples s8 = (if ''CI'' \<in> dom env then 2 else 100)" by simp
  from cell10_frame [OF c] n8
  show "num_samples s = (if ''CI'' \<in> dom env then 2 else 100)" by simp
  from cell8_predicted [OF c8] cell10_reads [OF c] s7
  show "\<exists>s7. after_cell7 L env = Inr s7
                \<and> call L (model_eval (model s7))
                     (unsqueeze_repeat (num_samples s7) (unsqueeze_last (linspace 0 1 101)))
                   = Inr (predicted s)"
    by auto
  from cell10_plot(1) [OF c] cell10_reads [OF c] cell8_test_x [OF c8] n8
  show curves: "filter (\<lambda>l. fmt l = ''b'') (lines (ax s))
              = map (\<lambda>i. \<lparr>xdata = concat (unsqueeze_last (linspace 0 1 101)),
                           ydata = mean (predicted s) ! i, fmt = ''b''\<rparr>)
                  [0..<(if ''CI'' \<in> dom env then 2 else 25)]"
    by (simp add: filter_map o_def)
  then show "length (filter (\<lambda>l. fmt l = ''b'') (lines (ax s)))
              = (if ''CI'' \<in> dom env then 2 else 25)"
    by simp
qed

theorem plotted_mean_curves_witness:
  "(\<exists>s. after_cell10 (gpytorch example_numerics) [''CI'' \<mapsto> ''true''] = Inr s
      \<and> filter (\<lambda>l. fmt l = ''b'') (lines (ax s))
          = [\<lparr>xdata = concat (unsqueeze_last (linspace 0 1 101)),
               ydata = mean (predicted s) ! 0, fmt = ''b''\<rparr>,
             \<lparr>xdata = concat (unsqueeze_last (linspace 0 1 101)),
               ydata = mean (predicted s) ! 1, fmt = ''b''\<rparr>])
   \<and> (\<exists>s. after_cell10 (gpytorch example_numerics) Map.empty = Inr s
      \<and> length (filter (\<lambda>l. fmt l = ''b'') (lines (ax s))) = 25)"
proof -
  from notebook_gpytorch [of example_numerics "[''CI'' \<mapsto> ''true'']"]
  obtain s where s: "after_cell10 (gpytorch example_numerics) [''CI'' \<mapsto> ''true''] = Inr s"
    by auto
  from notebook_gpytorch [of example_numerics Map.empty]
  obtain t where t: "after_cell10 (gpytorch example_numerics) Map.empty = Inr t"
    by auto
  from plotted_mean_curves s
  have "filter (\<lambda>l. fmt l = ''b'') (lines (ax s))
          = map (\<lambda>i. \<lparr>xdata = concat (unsqueeze_last (linspace 0 1 101)),
                       ydata = mean (predicted s) ! i, fmt = ''b''\<rparr>)
                  [0..<(if ''CI'' \<in> dom [''CI'' \<mapsto> ''true''] then 2 else 25)]"
    by blast
  then have 1: "filter (\<lambda>l. fmt l = ''b'') (lines (ax s))
          = [\<lparr>xdata = concat (unsqueeze_last (linspace 0 1 101)),
               ydata = mean (predicted s) ! 0, fmt = ''b''\<rparr>,
             \<lparr>xdata = concat (unsqueeze_last (linspace 0 1 101)),
               ydata = mean (predicted s) ! 1, fmt = ''b''\<rparr>]"
    by (simp add: upt_rec)
  from plotted_mean_curves t
  have "length (filter (\<lambda>l. fmt l = ''b'') (lines (ax t)))
          = (if ''CI'' \<in> dom (Map.empty :: environ) then 2 else 25)"
    by blast
  then have 2: "length (filter (\<lambda>l. fmt l = ''b'') (lines (ax t))) = 25" by simp
  from s t 1 2 show ?thesis by blast
qed

text \<open>
  C3, as amended. The marker \<open>CI\<close> changes exactly three settings of the run, the
  sample count (100 to 2), the warmup count (200 to 2) and the sampler's
  \<open>disable_progbar\<close> flag (off to on), and affects nothing else. In full: the set-up of
  cell 5 reads the environment only for the marker and fixes \<open>smoke_test\<close>, the two
  counts and the sampler object from it, and its other products (data, model with
  priors, sampler kernel) are the same in every environment. The notebook is that set-up
  followed by the sampler run and cells 7 to 12, and this rest of the program reads
  neither \<open>smoke_test\<close> nor the variable \<open>warmup_steps\<close>: overwriting them before only
  overwrites them after. After the run no cell reads the sampler object. The sample
  count is read again in two places only: by cell 8, as the number of copies of the
  test inputs it passes to the model, and by cell 10, through \<open>min(num_samples, 25)\<close>;
  cells 7 and 12 do not read it, and cell 10 sets the same axis limits and legend
  whatever the counts. Hence two environments that agree on the marker give the same
  run.
\<close>

theorem ci_marker_effects:
  "(\<forall>s. cell5_setup L env v = Inr s \<longrightarrow>
       smoke_test s = (''CI'' \<in> dom env)
       \<and> num_samples s = (if ''CI'' \<in> dom env then 2 else 100)
       \<and> warmup_steps s = (if ''CI'' \<in> dom env then 2 else 200)
       \<and> mcmc_run s = MCMC (NUTS True) (num_samples s) (warmup_steps s) (smoke_test s))
   \<and> then_do (cell5_setup L env v)
        (\<lambda>s. Inr (train_x s, train_y s, model s, kernel (mcmc_run s)))
     = then_do (cell5_setup L env' v)
        (\<lambda>s. Inr (train_x s, train_y s, model s, kernel (mcmc_run s)))
   \<and> notebook L env =
       then_do (cell5_setup L env (cell2 L)) (\<lambda>s.
         then_do (then_do (then_do (then_do (cell5_run L s) (cell7 L)) (cell8 L)) cell10)
           (cell12 L))
   \<and> (\<forall>s b w.
         then_do (then_do (then_do (then_do
             (cell5_run L (s\<lparr>smoke_test := b, warmup_steps := w\<rparr>)) (cell7 L)) (cell8 L)) cell10)
             (cell12 L)
         = then_do (then_do (then_do (then_do (then_do
             (cell5_run L s) (cell7 L)) (cell8 L)) cell10) (cell12 L))
             (\<lambda>t. Inr (t\<lparr>smoke_test := b, warmup_steps := w\<rparr>)))
   \<and> (\<forall>s mc.
         then_do (then_do (then_do (cell7 L (s\<lparr>mcmc_run := mc\<rparr>)) (cell8 L)) cell10) (cell12 L)
         = then_do (then_do (then_do (then_do (cell7 L s) (cell8 L)) cell10) (cell12 L))
             (\<lambda>t. Inr (t\<lparr>mcmc_run := mc\<rparr>)))
   \<and> (\<forall>s n. cell7 L (s\<lparr>num_samples := n\<rparr>)
         = then_do (cell7 L s) (\<lambda>t. Inr (t\<lparr>num_samples := n\<rparr>)))
   \<and> (\<forall>s s'. cell8 L s = Inr s' \<longrightarrow>
         model s' = model_eval (model s)
         \<and> test_x s' = unsqueeze_last (linspace 0 1 101)
         \<and> test_y s' = map (sin_tensor L) (map (\<lambda>row. mul L row (2 * math_pi)) (test_x s'))
         \<and> expanded_test_x s' = unsqueeze_repeat (num_samples s) (test_x s')
         \<and> call L (model s') (expanded_test_x s') = Inr (predicted s'))
   \<and> (\<forall>s n. min n 25 = min (num_samples s) 25 \<longrightarrow>
         cell10 (s\<lparr>num_samples := n\<rparr>)
         = then_do (cell10 s) (\<lambda>t. Inr (t\<lparr>num_samples := n\<rparr>)))
   \<and> (\<forall>s s'. cell10 s = Inr s' \<longrightarrow>
         ylim (ax s') = Some (- 3, 3) \<and> legend (ax s') = [''Observed Data'', ''Sampled Means''])
   \<and> (\<forall>s n. cell12 L (s\<lparr>num_samples := n\<rparr>)
         = then_do (cell12 L s) (\<lambda>t. Inr (t\<lparr>num_samples := n\<rparr>)))
   \<and> ((''CI'' \<in> dom env \<longleftrightarrow> ''CI'' \<in> dom env') \<longrightarrow> notebook L env = notebook L env')"
proof (intro conjI allI impI)
  fix s :: ns5_setup
  assume "cell5_setup L env v = Inr s"
  then show "smoke_test s = (''CI'' \<in> dom env)"
    and "num_samples s = (if ''CI'' \<in> dom env then 2 else 100)"
    and "warmup_steps s = (if ''CI'' \<in> dom env then 2 else 200)"
    and "mcmc_run s = MCMC (NUTS True) (num_samples s) (warmup_steps s) (smoke_test s)"
    by (auto simp: cell5_setup_def Let_def then_do_eq_Inr ns_defs split: if_splits)
next
  show "then_do (cell5_setup L env v)
        (\<lambda>s. Inr (train_x s, train_y s, model s, kernel (mcmc_run s)))
     = then_do (cell5_setup L env' v)
        (\<lambda>s. Inr (train_x s, train_y s, model s, kernel (mcmc_run s)))"
    by (cases "register_priors L (ExactGPModel L (train_x v) (train_y v)
          (GaussianLikelihood L Positive))")
       (simp_all add: cell5_setup_def Let_def ns_defs)
next
  show "notebook L env =
       then_do (cell5_setup L env (cell2 L)) (\<lambda>s.
         then_do (then_do (then_do (then_do (cell5_run L s) (cell7 L)) (cell8 L)) cell10)
           (cell12 L))"
    by (rule notebook_unfold)
next
  fix s :: ns5_setup and b w
  show "then_do (then_do (then_do (then_do
             (cell5_run L (s\<lparr>smoke_test := b, warmup_steps := w\<rparr>)) (cell7 L)) (cell8 L)) cell10)
             (cell12 L)
         = then_do (then_do (then_do (then_do (then_do
             (cell5_run L s) (cell7 L)) (cell8 L)) cell10) (cell12 L))
             (\<lambda>t. Inr (t\<lparr>smoke_test := b, warmup_steps := w\<rparr>))"
    by (rule rest_unread)
next
  fix s :: ns5 and mc
  show "then_do (then_do (then_do (cell7 L (s\<lparr>mcmc_run := mc\<rparr>)) (cell8 L)) cell10) (cell12 L)
         = then_do (then_do (then_do (then_do (cell7 L s) (cell8 L)) cell10) (cell12 L))
             (\<lambda>t. Inr (t\<lparr>mcmc_run := mc\<rparr>))"
    by (rule after_run_unread)
next
  fix s :: ns5 and n
  show "cell7 L (s\<lparr>num_samples := n\<rparr>)
         = then_do (cell7 L s) (\<lambda>t. Inr (t\<lparr>num_samples := n\<rparr>))"
    by (rule sample_count_unread)
next
  fix s :: ns5 and s' :: ns8
  assume c: "cell8 L s = Inr s'"
  show "model s' = model_eval (model s)"
    and "test_x s' = unsqueeze_last (linspace 0 1 101)"
    and "test_y s' = map (sin_tensor L) (map (\<lambda>row. mul L row (2 * math_pi)) (test_x s'))"
    and "expanded_test_x s' = unsqueeze_repeat (num_samples s) (test_x s')"
    and "call L (model s') (expanded_test_x s') = Inr (predicted s')"
    by (rule cell8_sample_count [OF c])+
next
  fix s :: ns8 and n
  assume "min n 25 = min (num_samples s) 25"
  then show "cell10 (s\<lparr>num_samples := n\<rparr>)
         = then_do (cell10 s) (\<lambda>t. Inr (t\<lparr>num_samples := n\<rparr>))"
    by (rule cell10_sample_count)
next
  fix s :: ns8 and s' :: ns10
  assume "cell10 s = Inr s'"
  then show "ylim (ax s') = Some (- 3, 3)"
    and "legend (ax s') = [''Observed Data'', ''Sampled Means'']"
    by (auto simp: cell10_def Let_def then_do_eq_Inr ns_defs)
next
  fix s :: ns10 and n
  show "cell12 L (s\<lparr>num_samples := n\<rparr>)
         = then_do (cell12 L s) (\<lambda>t. Inr (t\<lparr>num_samples := n\<rparr>))"
    by (rule sample_count_unread)
next
  assume "(''CI'' \<in> dom env) = (''CI'' \<in> dom env')"
  then have "cell5_setup L env (cell2 L) = cell5_setup L env' (cell2 L)"
    by (rule cell5_setup_env)
  then show "notebook L env = notebook L env'"
    by (simp add: notebook_def after_cell10_def after_cell8_def after_cell7_def after_cell5_def
        cell5_def)
qed

theorem ci_marker_effects_witness:
  "(\<exists>s. cell5_setup (gpytorch example_numerics) [''CI'' \<mapsto> ''true'']
           (cell2 (gpytorch example_numerics)) = Inr s
       \<and> smoke_test s \<and> num_samples s = 2 \<and> warmup_steps s = 2
       \<and> mcmc_run s = MCMC (NUTS True) 2 2 True)
   \<and> (\<exists>s. cell5_setup (gpytorch example_numerics) Map.empty
           (cell2 (gpytorch example_numerics)) = Inr s
       \<and> \<not> smoke_test s \<and> num_samples s = 100 \<and> warmup_steps s = 200
       \<and> mcmc_run s = MCMC (NUTS True) 100 200 False)
   \<and> (\<exists>s. after_cell10 (gpytorch example_numerics) Map.empty = Inr s
       \<and> ylim (ax s) = Some (- 3, 3) \<and> legend (ax s) = [''Observed Data'', ''Sampled Means''])
   \<and> (\<exists>s. after_cell8 (gpytorch example_numerics) Map.empty = Inr s
       \<and> expanded_test_x s = unsqueeze_repeat 100 (test_x s)
       \<and> cell10 (s\<lparr>num_samples := 30\<rparr>)
           = then_do (cell10 s) (\<lambda>t. Inr (t\<lparr>num_samples := 30\<rparr>)))
   \<and> notebook (gpytorch example_numerics) [''CI'' \<mapsto> ''true'']
      = notebook (gpytorch example_numerics) [''CI'' \<mapsto> ''1'', ''HOME'' \<mapsto> ''/root'']"
proof -
  obtain s where s: "cell5_setup (gpytorch example_numerics) [''CI'' \<mapsto> ''true'']
           (cell2 (gpytorch example_numerics)) = Inr s"
    by (simp add: cell5_setup_gpytorch)
  obtain t where t: "cell5_setup (gpytorch example_numerics) Map.empty
           (cell2 (gpytorch example_numerics)) = Inr t"
    by (simp add: cell5_setup_gpytorch)
  have m: "(''CI'' \<in> dom [''CI'' \<mapsto> ''true''])
        = (''CI'' \<in> dom [''CI'' \<mapsto> ''1'', ''HOME'' \<mapsto> ''/root''])"
    by simp
  from notebook_gpytorch [of example_numerics Map.empty]
  obtain s10 where "after_cell10 (gpytorch example_numerics) Map.empty = Inr s10"
    by auto
  then obtain s8 where s10: "after_cell10 (gpytorch example_numerics) Map.empty = Inr s10"
    and s8: "after_cell8 (gpytorch example_numerics) Map.empty = Inr s8"
    and c10: "cell10 s8 = Inr s10"
    by (auto simp: after_cell10_def then_do_eq_Inr)
  from s8 obtain s7 where s7: "after_cell7 (gpytorch example_numerics) Map.empty = Inr s7"
    and c8: "cell8 (gpytorch example_numerics) s7 = Inr s8"
    by (auto simp: after_cell8_def then_do_eq_Inr)
  from after_cell7_num_samples [OF s7] have n7: "num_samples s7 = 100" by simp
  with cell8_predicted [OF c8] have n8: "min 30 25 = min (num_samples s8) 25" by simp
  from ci_marker_effects [of "gpytorch example_numerics" "[''CI'' \<mapsto> ''true'']"
      "cell2 (gpytorch example_numerics)" "[''CI'' \<mapsto> ''1'', ''HOME'' \<mapsto> ''/root'']"] s m
  have 1: "smoke_test s \<and> num_samples s = 2 \<and> warmup_steps s = 2
       \<and> mcmc_run s = MCMC (NUTS True) 2 2 True"
    and 3: "notebook (gpytorch example_numerics) [''CI'' \<mapsto> ''true'']
      = notebook (gpytorch example_numerics) [''CI'' \<mapsto> ''1'', ''HOME'' \<mapsto> ''/root'']"
    by auto
  note inst = ci_marker_effects [of "gpytorch example_numerics" Map.empty
      "cell2 (gpytorch example_numerics)" Map.empty]
  from inst t c10
  have 2: "\<not> smoke_test t \<and> num_samples t = 100 \<and> warmup_steps t = 200
       \<and> mcmc_run t = MCMC (NUTS True) 100 200 False"
    and 4: "ylim (ax s10) = Some (- 3, 3) \<and> legend (ax s10) = [''Observed Data'', ''Sampled Means'']"
    by auto
  from inst c8 n7
  have 5: "expanded_test_x s8 = unsqueeze_repeat 100 (test_x s8)"
    by auto
  from inst n8
  have 6: "cell10 (s8\<lparr>num_samples := 30\<rparr>)
           = then_do (cell10 s8) (\<lambda>t. Inr (t\<lparr>num_samples := 30\<rparr>))"
    by blast
  from s t s10 s8 1 2 3 4 5 6 show ?thesis by blast
qed

text \<open>
  The claim C3 as stated, that the marker changes the two counts and nothing else, fails:
  the sampler of cell 5 is built with \<open>disable_progbar=smoke_test\<close>, so its progress bar
  is disabled with the marker and enabled without it.
\<close>

theorem ci_changes_progress_bar:
  "\<exists>s t. cell5_setup (gpytorch example_numerics) [''CI'' \<mapsto> ''true'']
            (cell2 (gpytorch example_numerics)) = Inr s
       \<and> cell5_setup (gpytorch example_numerics) Map.empty
            (cell2 (gpytorch example_numerics)) = Inr t
       \<and> disable_progbar (mcmc_run s) \<and> \<not> disable_progbar (mcmc_run t)"
  by (simp add: cell5_setup_gpytorch)

text \<open>
  C8. The notebook handles no error: whatever the library operations do, the first
  failing call decides the result of the whole notebook. This holds for each of the five
  \<open>register_prior\<close> calls (an invalid prior support), for the sampler run, for the
  loading of the samples, for the prediction call, for an index past the rows of the
  predictive mean in the plotting loop, and for the reload of the saved state (a shape
  mismatch): the error is returned unchanged.
\<close>

theorem failures_propagate:
  "(let m0 = ExactGPModel L (train_x (cell2 L)) (train_y (cell2 L)) (GaussianLikelihood L Positive);
        call1 = register_prior L ''mean_prior'' (UniformPrior (-1) 1) ''constant''
                  (mean_module m0);
        call2 = register_prior L ''lengthscale_prior'' (UniformPrior 0.01 0.5) ''lengthscale''
                  (base_kernel (covar_module m0));
        call3 = register_prior L ''period_length_prior'' (UniformPrior 0.05 2.5) ''period_length'';
        call4 = register_prior L ''outputscale_prior'' (UniformPrior 1 2) ''outputscale''
                  (scale (covar_module m0));
        call5 = register_prior L ''noise_prior'' (UniformPrior 0.05 0.3) ''noise''
                  (likelihood m0)
    in (call1 = Inl e \<longrightarrow> notebook L env = Inl e)
     \<and> (\<forall>mm. call1 = Inr mm \<and> call2 = Inl e \<longrightarrow> notebook L env = Inl e)
     \<and> (\<forall>mm bk. call1 = Inr mm \<and> call2 = Inr bk \<and> call3 bk = Inl e
           \<longrightarrow> notebook L env = Inl e)
     \<and> (\<forall>mm bk bk'. call1 = Inr mm \<and> call2 = Inr bk \<and> call3 bk = Inr bk' \<and> call4 = Inl e
           \<longrightarrow> notebook L env = Inl e)
     \<and> (\<forall>mm bk bk' sk. call1 = Inr mm \<and> call2 = Inr bk \<and> call3 bk = Inr bk'
             \<and> call4 = Inr sk \<and> call5 = Inl e
           \<longrightarrow> notebook L env = Inl e))
   \<and> (\<forall>s. cell5_setup L env (cell2 L) = Inr s
          \<and> run L (mcmc_run s) (model s) (train_x s) (train_y s) = Inl e
     \<longrightarrow> notebook L env = Inl e)
   \<and> (\<forall>s. after_cell5 L env = Inr s
          \<and> pyro_load_from_samples L (samples s) (model s) = Inl e
     \<longrightarrow> notebook L env = Inl e)
   \<and> (\<forall>s. after_cell7 L env = Inr s
          \<and> call L (model_eval (model s))
               (unsqueeze_repeat (num_samples s) (unsqueeze_last (linspace 0 1 101))) = Inl e
     \<longrightarrow> notebook L env = Inl e)
   \<and> (\<forall>s. after_cell8 L env = Inr s
          \<and> \<not> nat (min (num_samples s) 25) \<le> length (mean (predicted s))
     \<longrightarrow> notebook L env = Inl IndexError)
   \<and> (\<forall>s. after_cell10 L env = Inr s
          \<and> load_state_dict L (state_dict L (model s))
               (load_strict_shapes L False
                  (ExactGPModel L (train_x s) (train_y s) (likelihood (model s)))) = Inl e
     \<longrightarrow> notebook L env = Inl e)"
proof -
  have calls: "cell5_setup L env (cell2 L) = Inl e"
    if "register_priors L (ExactGPModel L (train_x (cell2 L)) (train_y (cell2 L))
          (GaussianLikelihood L Positive)) = Inl e"
    using that by (simp add: cell5_setup_def Let_def)
  show ?thesis
    unfolding Let_def
  proof (intro conjI allI impI)
    assume "register_prior L ''mean_prior'' (UniformPrior (- 1) 1) ''constant''
       (mean_module (ExactGPModel L (train_x (cell2 L)) (train_y (cell2 L))
          (GaussianLikelihood L Positive))) = Inl e"
    then have "register_priors L (ExactGPModel L (train_x (cell2 L)) (train_y (cell2 L))
          (GaussianLikelihood L Positive)) = Inl e"
      by (simp add: register_priors_def)
    then show "notebook L env = Inl e" by (intro fails_after_setup calls)
  next
    fix mm
    assume "register_prior L ''mean_prior'' (UniformPrior (- 1) 1) ''constant''
       (mean_module (ExactGPModel L (train_x (cell2 L)) (train_y (cell2 L))
          (GaussianLikelihood L Positive))) = Inr mm
      \<and> register_prior L ''lengthscale_prior'' (UniformPrior 0.01 0.5) ''lengthscale''
       (base_kernel (covar_module (ExactGPModel L (train_x (cell2 L)) (train_y (cell2 L))
          (GaussianLikelihood L Positive)))) = Inl e"
    then have "register_priors L (ExactGPModel L (train_x (cell2 L)) (train_y (cell2 L))
          (GaussianLikelihood L Positive)) = Inl e"
      by (simp add: register_priors_def ExactGPModel_def)
    then show "notebook L env = Inl e" by (intro fails_after_setup calls)
  next
    fix mm bk
    assume "register_prior L ''mean_prior'' (UniformPrior (- 1) 1) ''constant''
       (mean_module (ExactGPModel L (train_x (cell2 L)) (train_y (cell2 L))
          (GaussianLikelihood L Positive))) = Inr mm
      \<and> register_prior L ''lengthscale_prior'' (UniformPrior 0.01 0.5) ''lengthscale''
       (base_kernel (covar_module (ExactGPModel L (train_x (cell2 L)) (train_y (cell2 L))
          (GaussianLikelihood L Positive)))) = Inr bk
      \<and> register_prior L ''period_length_prior'' (UniformPrior 0.05 2.5) ''period_length'' bk
         = Inl e"
    then have "register_priors L (ExactGPModel L (train_x (cell2 L)) (train_y (cell2 L))
          (GaussianLikelihood L Positive)) = Inl e"
      by (simp add: register_priors_def ExactGPModel_def)
    then show "notebook L env = Inl e" by (intro fails_after_setup calls)
  next
    fix mm bk bk'
    assume "register_prior L ''mean_prior'' (UniformPrior (- 1) 1) ''constant''
       (mean_module (ExactGPModel L (train_x (cell2 L)) (train_y (cell2 L))
          (GaussianLikelihood L Positive))) = Inr mm
      \<and> register_prior L ''lengthscale_prior'' (UniformPrior 0.01 0.5) ''lengthscale''
       (base_kernel (covar_module (ExactGPModel L (train_x (cell2 L)) (train_y (cell2 L))
          (GaussianLikelihood L Positive)))) = Inr bk
      \<and> register_prior L ''period_length_prior'' (UniformPrior 0.05 2.5) ''period_length'' bk
         = Inr bk'
      \<and> register_prior L ''outputscale_prior'' (UniformPrior 1 2) ''outputscale''
       (scale (covar_module (ExactGPModel L (train_x (cell2 L)) (train_y (cell2 L))
          (GaussianLikelihood L Positive)))) = Inl e"
    then have "register_priors L (ExactGPModel L (train_x (cell2 L)) (train_y (cell2 L))
          (GaussianLikelihood L Positive)) = Inl e"
      by (simp add: register_priors_def ExactGPModel_def)
    then show "notebook L env = Inl e" by (intro fails_after_setup calls)
  next
    fix mm bk bk' sk
    assume "register_prior L ''mean_prior'' (UniformPrior (- 1) 1) ''constant''
       (mean_module (ExactGPModel L (train_x (cell2 L)) (train_y (cell2 L))
          (GaussianLikelihood L Positive))) = Inr mm
      \<and> register_prior L ''lengthscale_prior'' (UniformPrior 0.01 0.5) ''lengthscale''
       (base_kernel (covar_module (ExactGPModel L (train_x (cell2 L)) (train_y (cell2 L))
          (GaussianLikelihood L Positive)))) = Inr bk
      \<and> register_prior L ''period_length_prior'' (UniformPrior 0.05 2.5) ''period_length'' bk
         = Inr bk'
      \<and> register_prior L ''outputscale_prior'' (UniformPrior 1 2) ''outputscale''
       (scale (covar_module (ExactGPModel L (train_x (cell2 L)) (train_y (cell2 L))
          (GaussianLikelihood L Positive)))) = Inr sk
      \<and> register_prior L ''noise_prior'' (UniformPrior 0.05 0.3) ''noise''
       (likelihood (ExactGPModel L (train_x (cell2 L)) (train_y (cell2 L))
          (GaussianLikelihood L Positive))) = Inl e"
    then have "register_priors L (ExactGPModel L (train_x (cell2 L)) (train_y (cell2 L))
          (GaussianLikelihood L Positive)) = Inl e"
      by (simp add: register_priors_def ExactGPModel_def)
    then show "notebook L env = Inl e" by (intro fails_after_setup calls)
  next
    fix s :: ns5_setup
    assume "cell5_setup L env (cell2 L) = Inr s
          \<and> run L (mcmc_run s) (model s) (train_x s) (train_y s) = Inl e"
    then show "notebook L env = Inl e"
      by (simp add: notebook_def after_cell10_def after_cell8_def after_cell7_def after_cell5_def
          cell5_def cell5_run_def)
  next
    fix s :: ns5
    assume "after_cell5 L env = Inr s \<and> pyro_load_from_samples L (samples s) (model s) = Inl e"
    then show "notebook L env = Inl e"
      by (simp add: notebook_def after_cell10_def after_cell8_def after_cell7_def cell7_def)
  next
    fix s :: ns5
    assume "after_cell7 L env = Inr s
          \<and> call L (model_eval (model s))
               (unsqueeze_repeat (num_samples s) (unsqueeze_last (linspace 0 1 101))) = Inl e"
    then show "notebook L env = Inl e"
      by (simp add: notebook_def after_cell10_def after_cell8_def cell8_def Let_def)
  next
    fix s :: ns8
    assume a: "after_cell8 L env = Inr s
          \<and> \<not> nat (min (num_samples s) 25) \<le> length (mean (predicted s))"
    then have "\<exists>i \<in> set [0..<nat (min (num_samples s) 25)]. \<not> i < length (mean (predicted s))"
      by (auto intro: bexI [of _ "length (mean (predicted s))"])
    from plot_means_fails [OF this] a show "notebook L env = Inl IndexError"
      by (simp add: notebook_def after_cell10_def cell10_def Let_def)
  next
    fix s :: ns10
    assume "after_cell10 L env = Inr s
          \<and> load_state_dict L (state_dict L (model s))
               (load_strict_shapes L False
                  (ExactGPModel L (train_x s) (train_y s) (likelihood (model s)))) = Inl e"
    then show "notebook L env = Inl e"
      by (simp add: notebook_def cell12_def Let_def)
  qed
qed

theorem failures_propagate_witness:
  "notebook ((gpytorch example_numerics)
       \<lparr>PeriodicKernel := new_module
          [(''lengthscale'', \<lparr>data = Single 2, constraint = Some (GreaterThan 1)\<rparr>),
           (''period_length'', \<lparr>data = Single 2, constraint = Some Positive\<rparr>)]\<rparr>) Map.empty
     = Inl (InvalidPriorSupport ''lengthscale_prior'')
   \<and> notebook (gpytorch (example_numerics\<lparr>sampler_fault := Some (SamplerFailure ''diverged'')\<rparr>))
       Map.empty = Inl (SamplerFailure ''diverged'')
   \<and> notebook ((gpytorch example_numerics)\<lparr>load_strict_shapes := (\<lambda>b m. m)\<rparr>) Map.empty
     = Inl (ShapeMismatch ''mean_module.constant'')"
proof -
  let ?L1 = "(gpytorch example_numerics)
       \<lparr>PeriodicKernel := new_module
          [(''lengthscale'', \<lparr>data = Single 2, constraint = Some (GreaterThan 1)\<rparr>),
           (''period_length'', \<lparr>data = Single 2, constraint = Some Positive\<rparr>)]\<rparr>"
  let ?N2 = "example_numerics\<lparr>sampler_fault := Some (SamplerFailure ''diverged'')\<rparr>"
  let ?L3 = "(gpytorch example_numerics)\<lparr>load_strict_shapes := (\<lambda>b m. m)\<rparr>"
  obtain mm where h1a: "register_prior ?L1 ''mean_prior'' (UniformPrior (- 1) 1) ''constant''
       (mean_module (ExactGPModel ?L1 (train_x (cell2 ?L1)) (train_y (cell2 ?L1))
          (GaussianLikelihood ?L1 Positive))) = Inr mm"
    by (simp add: ExactGPModel_def ctor_defs gpytorch_register_prior_def gpytorch_def)
  have h1b: "register_prior ?L1 ''lengthscale_prior'' (UniformPrior 0.01 0.5) ''lengthscale''
       (base_kernel (covar_module (ExactGPModel ?L1 (train_x (cell2 ?L1)) (train_y (cell2 ?L1))
          (GaussianLikelihood ?L1 Positive)))) = Inl (InvalidPriorSupport ''lengthscale_prior'')"
    by (simp add: ExactGPModel_def ctor_defs gpytorch_register_prior_def gpytorch_def)
  from failures_propagate [where L = ?L1 and env = Map.empty
      and e = "InvalidPriorSupport ''lengthscale_prior''", unfolded Let_def] h1a h1b
  have 1: "notebook ?L1 Map.empty = Inl (InvalidPriorSupport ''lengthscale_prior'')"
    by blast
  obtain s where s: "cell5_setup (gpytorch ?N2) Map.empty (cell2 (gpytorch ?N2)) = Inr s"
    by (simp add: cell5_setup_gpytorch)
  have h2: "run (gpytorch ?N2) (mcmc_run s) (model s) (train_x s) (train_y s)
      = Inl (SamplerFailure ''diverged'')"
    by (simp add: sampler_run_def)
  from failures_propagate [where L = "gpytorch ?N2" and env = Map.empty
      and e = "SamplerFailure ''diverged''"] s h2
  have 2: "notebook (gpytorch ?N2) Map.empty = Inl (SamplerFailure ''diverged'')"
    by blast
  from notebook_gpytorch [of example_numerics Map.empty]
  obtain s10 where s10: "after_cell10 (gpytorch example_numerics) Map.empty = Inr s10"
    and fails: "load_state_dict (gpytorch example_numerics)
        (state_dict (gpytorch example_numerics) (model s10))
        (ExactGPModel (gpytorch example_numerics) (train_x s10) (train_y s10)
           (likelihood (model s10))) = Inl (ShapeMismatch ''mean_module.constant'')"
    by auto
  from s10 have s10': "after_cell10 ?L3 Map.empty = Inr s10"
    by (simp only: after_cell10_load_strict_shapes)
  from fails have h3: "load_state_dict ?L3 (state_dict ?L3 (model s10))
        (load_strict_shapes ?L3 False
           (ExactGPModel ?L3 (train_x s10) (train_y s10) (likelihood (model s10))))
      = Inl (ShapeMismatch ''mean_module.constant'')"
    by (simp add: ExactGPModel_def)
  from failures_propagate [where L = ?L3 and env = Map.empty
      and e = "ShapeMismatch ''mean_module.constant''"] s10' h3
  have 3: "notebook ?L3 Map.empty = Inl (ShapeMismatch ''mean_module.constant'')"
    by blast
  from 1 2 3 show ?thesis by blast
qed

text \<open>
  C5. After \<open>pyro_load_from_samples\<close> has loaded the sampler's output, each of the five
  hyperparameters with a registered prior, a scalar before, holds a batched array whose
  leading dimension is \<open>num_samples\<close>.
\<close>

theorem samples_loaded_batched:
  assumes "sampler_fault N = None"
  shows "\<exists>s5 s7. after_cell5 (gpytorch N) env = Inr s5 \<and> after_cell7 (gpytorch N) env = Inr s7
     \<and> num_samples s7 = (if ''CI'' \<in> dom env then 2 else 100)
     \<and> length (registered (model s7)) = 5
     \<and> registered (model s7) = registered (model s5)
     \<and> (\<forall>(site, p, pn) \<in> set (registered (model s5)).
           \<exists>x. map_of (state_dict (gpytorch N) (model s5)) pn = Some (Single x))
     \<and> (\<forall>(site, p, pn) \<in> set (registered (model s7)).
           \<exists>xs. map_of (state_dict (gpytorch N) (model s7)) pn = Some (Batch xs)
              \<and> shape (Batch xs) = [nat (num_samples s7)]
              \<and> int (length xs) = num_samples s7)"
  using assms
  by (simp add: stage_defs cell5_setup_gpytorch gp_defs ns_defs length_draws)

theorem samples_loaded_batched_witness:
  "\<exists>s. after_cell7 (gpytorch example_numerics) [''CI'' \<mapsto> ''true''] = Inr s
     \<and> num_samples s = 2
     \<and> map_of (state_dict (gpytorch example_numerics) (model s)) ''likelihood.noise''
         = Some (Batch [1 / 4, 1 / 4])
     \<and> map_of (state_dict (gpytorch example_numerics) (model s)) ''covar_module.outputscale''
         = Some (Batch [3 / 2, 3 / 2])"
proof -
  have "sampler_fault example_numerics = None" by simp
  from samples_loaded_batched [OF this, of "[''CI'' \<mapsto> ''true'']"]
  obtain s where "after_cell7 (gpytorch example_numerics) [''CI'' \<mapsto> ''true''] = Inr s"
    and "num_samples s = 2"
    by auto
  moreover have "after_cell7 (gpytorch example_numerics) [''CI'' \<mapsto> ''true''] = Inr s \<Longrightarrow>
     map_of (state_dict (gpytorch example_numerics) (model s)) ''likelihood.noise''
         = Some (Batch [1 / 4, 1 / 4])
     \<and> map_of (state_dict (gpytorch example_numerics) (model s)) ''covar_module.outputscale''
         = Some (Batch [3 / 2, 3 / 2])"
    by (auto simp add: stage_defs cell5_setup_gpytorch gp_defs ns_defs draws_def
        example_numerics_def upt_rec)
  ultimately show ?thesis by auto
qed

text \<open>
  C1. The state saved from the batch model loads into the newly constructed model of
  cell 12, which calls \<open>load_strict_shapes(False)\<close> first, and the loaded model then
  holds the saved state. With the shape check left enabled (the call left out, or made
  with \<open>True\<close>) the same load raises a shape mismatch.
\<close>

theorem reload_needs_relaxed_shapes:
  assumes "sampler_fault N = None"
  shows "\<exists>s10 s12. after_cell10 (gpytorch N) env = Inr s10 \<and> notebook (gpytorch N) env = Inr s12
     \<and> saved_state s12 = state_dict (gpytorch N) (model s10)
     \<and> state_dict (gpytorch N) (model s12) = saved_state s12
     \<and> (let L = gpytorch N;
             saved = state_dict L (model s10);
             m0 = ExactGPModel L (train_x s10) (train_y s10) (likelihood (model s10))
         in (\<exists>m. load_state_dict L saved (load_strict_shapes L False m0) = Inr m
                  \<and> state_dict L m = saved)
            \<and> load_state_dict L saved m0 = Inl (ShapeMismatch ''mean_module.constant'')
            \<and> load_state_dict L saved (load_strict_shapes L True m0)
                = Inl (ShapeMismatch ''mean_module.constant''))"
  using notebook_gpytorch [OF assms, of env] unfolding Let_def by blast

theorem reload_needs_relaxed_shapes_witness:
  "\<exists>s. notebook (gpytorch example_numerics) Map.empty = Inr s
     \<and> state_dict (gpytorch example_numerics) (model s) = saved_state s"
proof -
  have "sampler_fault example_numerics = None" by simp
  from reload_needs_relaxed_shapes [OF this, of Map.empty]
  show ?thesis by blast
qed

text \<open>
  C4. Before the registration the model has no prior; the registration of cell 5
  attaches exactly five priors, each a uniform distribution, one to each of the five
  parameters of the model, all scalars: the observation noise, the mean constant, the
  kernel output-scale, the kernel lengthscale and the kernel period length.
\<close>

theorem five_uniform_priors:
  "registered (ExactGPModel (gpytorch N) tx ty (GaussianLikelihood (gpytorch N) Positive)) = []
   \<and> (\<exists>s. cell5_setup (gpytorch N) env (cell2 (gpytorch N)) = Inr s
        \<and> registered (model s) =
            [(''likelihood.noise_prior'', UniformPrior 0.05 0.3, ''likelihood.noise''),
             (''mean_module.mean_prior'', UniformPrior (-1) 1, ''mean_module.constant''),
             (''covar_module.outputscale_prior'', UniformPrior 1 2, ''covar_module.outputscale''),
             (''covar_module.base_kernel.lengthscale_prior'', UniformPrior 0.01 0.5,
              ''covar_module.base_kernel.lengthscale''),
             (''covar_module.base_kernel.period_length_prior'', UniformPrior 0.05 2.5,
              ''covar_module.base_kernel.period_length'')]
        \<and> length (registered (model s)) = 5
        \<and> list_all (\<lambda>(site, p, pn). is_uniform p) (registered (model s))
        \<and> map (\<lambda>(site, p, pn). pn) (registered (model s)) = map fst (parameters (model s))
        \<and> distinct (map fst (parameters (model s)))
        \<and> list_all (\<lambda>(n, q). shape (data q) = []) (parameters (model s)))"
proof
  show "registered (ExactGPModel (gpytorch N) tx ty (GaussianLikelihood (gpytorch N) Positive)) = []"
    by (simp add: gp_defs ExactGPModel_def)
next
  obtain s where s: "cell5_setup (gpytorch N) env (cell2 (gpytorch N)) = Inr s"
    by (simp add: cell5_setup_gpytorch)
  note reg = registered_after_setup [OF s] and par = parameters_after_setup [OF s]
  have "length (registered (model s)) = 5"
    and "list_all (\<lambda>(site, p, pn). is_uniform p) (registered (model s))"
    and "map (\<lambda>(site, p, pn). pn) (registered (model s)) = map fst (parameters (model s))"
    by (simp_all add: reg par)
  moreover have "distinct (map fst (parameters (model s)))"
    and "list_all (\<lambda>(n, q). shape (data q) = []) (parameters (model s))"
    by (simp_all add: par)
  ultimately show "\<exists>s. cell5_setup (gpytorch N) env (cell2 (gpytorch N)) = Inr s
        \<and> registered (model s) =
            [(''likelihood.noise_prior'', UniformPrior 0.05 0.3, ''likelihood.noise''),
             (''mean_module.mean_prior'', UniformPrior (-1) 1, ''mean_module.constant''),
             (''covar_module.outputscale_prior'', UniformPrior 1 2, ''covar_module.outputscale''),
             (''covar_module.base_kernel.lengthscale_prior'', UniformPrior 0.01 0.5,
              ''covar_module.base_kernel.lengthscale''),
             (''covar_module.base_kernel.period_length_prior'', UniformPrior 0.05 2.5,
              ''covar_module.base_kernel.period_length'')]
        \<and> length (registered (model s)) = 5
        \<and> list_all (\<lambda>(site, p, pn). is_uniform p) (registered (model s))
        \<and> map (\<lambda>(site, p, pn). pn) (registered (model s)) = map fst (parameters (model s))
        \<and> distinct (map fst (parameters (model s)))
        \<and> list_all (\<lambda>(n, q). shape (data q) = []) (parameters (model s))"
    using s reg by blast
qed

theorem five_uniform_priors_witness:
  "\<exists>s. cell5_setup (gpytorch example_numerics) Map.empty (cell2 (gpytorch example_numerics)) = Inr s
     \<and> map (\<lambda>(site, p, pn). (p, pn)) (registered (model s)) =
         [(UniformPrior 0.05 0.3, ''likelihood.noise''),
          (UniformPrior (-1) 1, ''mean_module.constant''),
          (UniformPrior 1 2, ''covar_module.outputscale''),
          (UniformPrior 0.01 0.5, ''covar_module.base_kernel.lengthscale''),
          (UniformPrior 0.05 2.5, ''covar_module.base_kernel.period_length'')]"
  using five_uniform_priors [of example_numerics "[]" "[]" Map.empty]
  by auto

text \<open>
  C10. Every registered prior is uniform on a bounded interval, and that support lies
  inside the domain of its parameter. The likelihood is constructed with the constraint
  \<open>Positive()\<close>, so the noise parameter's domain is the positive reals, which contain
  the support of \<open>UniformPrior(0.05, 0.3)\<close>.
\<close>

theorem prior_supports_within_domains:
  "\<exists>s. cell5_setup (gpytorch N) env (cell2 (gpytorch N)) = Inr s
     \<and> length (registered (model s)) = 5
     \<and> (\<forall>(site, p, pn) \<in> set (registered (model s)).
           (case p of UniformPrior a b \<Rightarrow> a \<le> b \<and> support p = {a..b} | _ \<Rightarrow> False)
           \<and> (\<exists>q. map_of (parameters (model s)) pn = Some q
                 \<and> support p \<subseteq> domain (constraint q)))
     \<and> (\<exists>q. map_of (parameters (model s)) ''likelihood.noise'' = Some q
           \<and> constraint q = Some Positive)
     \<and> (''likelihood.noise_prior'', UniformPrior 0.05 0.3, ''likelihood.noise'')
           \<in> set (registered (model s))
     \<and> support (UniformPrior 0.05 0.3) \<subseteq> domain (Some Positive)"
proof -
  obtain s where s: "cell5_setup (gpytorch N) env (cell2 (gpytorch N)) = Inr s"
    by (simp add: cell5_setup_gpytorch)
  note reg = registered_after_setup [OF s] and par = parameters_after_setup [OF s]
  have five: "length (registered (model s)) = 5"
    by (simp add: reg)
  have inside: "\<forall>(site, p, pn) \<in> set (registered (model s)).
           (case p of UniformPrior a b \<Rightarrow> a \<le> b \<and> support p = {a..b} | _ \<Rightarrow> False)
           \<and> (\<exists>q. map_of (parameters (model s)) pn = Some q
                 \<and> support p \<subseteq> domain (constraint q))"
    by (simp add: reg par subset_iff)
  have noise: "\<exists>q. map_of (parameters (model s)) ''likelihood.noise'' = Some q
           \<and> constraint q = Some Positive"
    by (simp add: par)
  have mem: "(''likelihood.noise_prior'', UniformPrior 0.05 0.3, ''likelihood.noise'')
           \<in> set (registered (model s))"
    by (simp add: reg)
  have "support_in_domain (UniformPrior 0.05 0.3) (Some Positive)"
    by simp
  then have "support (UniformPrior 0.05 0.3) \<subseteq> domain (Some Positive)"
    by (simp only: support_in_domain_iff)
  with s five inside noise mem show ?thesis by blast
qed

theorem prior_supports_within_domains_witness:
  "\<exists>s. cell5_setup (gpytorch example_numerics) Map.empty (cell2 (gpytorch example_numerics)) = Inr s
     \<and> (''covar_module.outputscale_prior'', UniformPrior 1 2, ''covar_module.outputscale'')
           \<in> set (registered (model s))
     \<and> (\<exists>q. map_of (parameters (model s)) ''covar_module.outputscale'' = Some q
           \<and> support (UniformPrior 1 2) \<subseteq> domain (constraint q))"
proof -
  from prior_supports_within_domains [of example_numerics Map.empty]
  obtain s where s: "cell5_setup (gpytorch example_numerics) Map.empty
        (cell2 (gpytorch example_numerics)) = Inr s"
    and all: "\<forall>(site, p, pn) \<in> set (registered (model s)).
           (case p of UniformPrior a b \<Rightarrow> a \<le> b \<and> support p = {a..b} | _ \<Rightarrow> False)
           \<and> (\<exists>q. map_of (parameters (model s)) pn = Some q
                 \<and> support p \<subseteq> domain (constraint q))"
    by blast
  from s have mem: "(''covar_module.outputscale_prior'', UniformPrior 1 2,
        ''covar_module.outputscale'') \<in> set (registered (model s))"
    by (auto simp: cell5_setup_gpytorch gp_defs)
  with all have "\<exists>q. map_of (parameters (model s)) ''covar_module.outputscale'' = Some q
           \<and> support (UniformPrior 1 2) \<subseteq> domain (constraint q)"
    by fastforce
  with s mem show ?thesis by blast
qed

text \<open>
  C2, as amended. For every prior registered on the model (noise, mean, output-scale,
  lengthscale and period-length prior), the prior's support is contained in the domain
  of the constrained parameter; the converse inclusion holds for none of them.
\<close>

theorem prior_support_contained:
  "\<exists>s. cell5_setup (gpytorch N) env (cell2 (gpytorch N)) = Inr s
     \<and> map fst (registered (model s)) =
         [''likelihood.noise_prior'', ''mean_module.mean_prior'',
          ''covar_module.outputscale_prior'', ''covar_module.base_kernel.lengthscale_prior'',
          ''covar_module.base_kernel.period_length_prior'']
     \<and> (\<forall>(site, p, pn) \<in> set (registered (model s)).
           \<exists>q. map_of (parameters (model s)) pn = Some q
             \<and> support p \<subseteq> domain (constraint q)
             \<and> \<not> domain (constraint q) \<subseteq> support p)"
proof -
  obtain s where s: "cell5_setup (gpytorch N) env (cell2 (gpytorch N)) = Inr s"
    by (simp add: cell5_setup_gpytorch)
  note reg = registered_after_setup [OF s] and par = parameters_after_setup [OF s]
  have names: "map fst (registered (model s)) =
         [''likelihood.noise_prior'', ''mean_module.mean_prior'',
          ''covar_module.outputscale_prior'', ''covar_module.base_kernel.lengthscale_prior'',
          ''covar_module.base_kernel.period_length_prior'']"
    by (simp add: reg)
  have inside: "\<forall>(site, p, pn) \<in> set (registered (model s)).
           \<exists>q. map_of (parameters (model s)) pn = Some q
             \<and> support p \<subseteq> domain (constraint q)
             \<and> \<not> domain (constraint q) \<subseteq> support p"
    by (simp add: reg par positive_not_bounded reals_not_bounded) (simp add: subset_iff)
  show ?thesis
    by (rule exI [of _ s]) (intro conjI s names inside)
qed

theorem prior_support_contained_witness:
  "\<exists>s. cell5_setup (gpytorch example_numerics) [''CI'' \<mapsto> ''true'']
         (cell2 (gpytorch example_numerics)) = Inr s
     \<and> (''mean_module.mean_prior'', UniformPrior (-1) 1, ''mean_module.constant'')
           \<in> set (registered (model s))
     \<and> (\<exists>q. map_of (parameters (model s)) ''mean_module.constant'' = Some q
           \<and> support (UniformPrior (-1) 1) \<subseteq> domain (constraint q)
           \<and> \<not> domain (constraint q) \<subseteq> support (UniformPrior (-1) 1))"
proof -
  from prior_support_contained [of example_numerics "[''CI'' \<mapsto> ''true'']"]
  obtain s where s: "cell5_setup (gpytorch example_numerics) [''CI'' \<mapsto> ''true'']
        (cell2 (gpytorch example_numerics)) = Inr s"
    and all: "\<forall>(site, p, pn) \<in> set (registered (model s)).
           \<exists>q. map_of (parameters (model s)) pn = Some q
             \<and> support p \<subseteq> domain (constraint q)
             \<and> \<not> domain (constraint q) \<subseteq> support p"
    by blast
  from s have mem: "(''mean_module.mean_prior'', UniformPrior (-1) 1,
        ''mean_module.constant'') \<in> set (registered (model s))"
    by (auto simp: cell5_setup_gpytorch gp_defs)
  with all have "\<exists>q. map_of (parameters (model s)) ''mean_module.constant'' = Some q
           \<and> support (UniformPrior (-1) 1) \<subseteq> domain (constraint q)
           \<and> \<not> domain (constraint q) \<subseteq> support (UniformPrior (-1) 1)"
    by fastforce
  with s mem show ?thesis by blast
qed

text \<open>
  The claim C2 as stated, that each support contains its parameter's domain, fails at
  the noise prior: the noise is constrained by \<open>Positive()\<close>, and 1 is a positive real
  outside the support of \<open>UniformPrior(0.05, 0.3)\<close>.
\<close>

theorem noise_domain_exceeds_support:
  "\<exists>s q. cell5_setup (gpytorch example_numerics) Map.empty
           (cell2 (gpytorch example_numerics)) = Inr s
     \<and> (''likelihood.noise_prior'', UniformPrior 0.05 0.3, ''likelihood.noise'')
           \<in> set (registered (model s))
     \<and> map_of (parameters (model s)) ''likelihood.noise'' = Some q
     \<and> constraint q = Some Positive
     \<and> 1 \<in> domain (constraint q) \<and> 1 \<notin> support (UniformPrior 0.05 0.3)
     \<and> \<not> domain (constraint q) \<subseteq> support (UniformPrior 0.05 0.3)"
  by (simp add: cell5_setup_gpytorch gp_defs positive_not_bounded)

end
